theory Spec2Isabelle
  imports Complex_Main
begin

section \<open>Array values\<close>

text \<open>
  The notebook computes on numpy arrays of double precision numbers.  An array entry is
  modelled as a value of \<open>fl\<close>: either a finite number, carried as an exact real, or one of
  the three special values that numpy's division produces (\<open>inf\<close>, \<open>-inf\<close>, \<open>nan\<close>).
  Rounding and the sign of zero are left out: arithmetic on finite numbers is exact.
  Where the kernel gradient is computed, the range of a double is modelled as well (a
  result too large is an infinity, a result too small is zero, and Python's float power
  raises OverflowError), because there it decides the value on the diagonal.

  Inputs (positions, velocities, masses and the Python scalars \<open>G\<close>, \<open>h\<close>, \<open>alpha\<close>) are
  finite and are carried as reals; a value becomes an \<open>fl\<close> at the first division it passes
  through, since division is the only operation of the notebook that can leave the finite
  numbers.
\<close>

datatype fl = Fin real | PInf | NInf | NaN

fun fl_neg :: "fl \<Rightarrow> fl" where
  "fl_neg (Fin x) = Fin (- x)"
| "fl_neg PInf = NInf"
| "fl_neg NInf = PInf"
| "fl_neg NaN = NaN"

fun fl_add :: "fl \<Rightarrow> fl \<Rightarrow> fl" where
  "fl_add NaN _ = NaN"
| "fl_add _ NaN = NaN"
| "fl_add (Fin x) (Fin y) = Fin (x + y)"
| "fl_add PInf NInf = NaN"
| "fl_add NInf PInf = NaN"
| "fl_add PInf _ = PInf"
| "fl_add NInf _ = NInf"
| "fl_add (Fin x) b = b"

definition fl_sub :: "fl \<Rightarrow> fl \<Rightarrow> fl" where
  "fl_sub a b = fl_add a (fl_neg b)"

text \<open>The sign of an infinite result: \<open>True\<close> is \<open>inf\<close>, \<open>False\<close> is \<open>-inf\<close>.\<close>

definition fl_inf :: "bool \<Rightarrow> fl" where
  "fl_inf positive = (if positive then PInf else NInf)"

fun fl_mul :: "fl \<Rightarrow> fl \<Rightarrow> fl" where
  "fl_mul NaN _ = NaN"
| "fl_mul _ NaN = NaN"
| "fl_mul (Fin x) (Fin y) = Fin (x * y)"
| "fl_mul (Fin x) PInf = (if x = 0 then NaN else fl_inf (0 < x))"
| "fl_mul (Fin x) NInf = (if x = 0 then NaN else fl_inf (x < 0))"
| "fl_mul PInf (Fin y) = (if y = 0 then NaN else fl_inf (0 < y))"
| "fl_mul NInf (Fin y) = (if y = 0 then NaN else fl_inf (y < 0))"
| "fl_mul PInf PInf = PInf"
| "fl_mul NInf NInf = PInf"
| "fl_mul PInf NInf = NInf"
| "fl_mul NInf PInf = NInf"

text \<open>
  Division as numpy performs it on arrays: a finite nonzero number over zero is an
  infinity, zero over zero is \<open>nan\<close>; nothing is raised (numpy prints a RuntimeWarning).
\<close>

fun fl_div :: "fl \<Rightarrow> fl \<Rightarrow> fl" where
  "fl_div NaN _ = NaN"
| "fl_div _ NaN = NaN"
| "fl_div (Fin x) (Fin y) =
     (if y \<noteq> 0 then Fin (x / y) else if x = 0 then NaN else fl_inf (0 < x))"
| "fl_div (Fin x) _ = Fin 0"
| "fl_div PInf (Fin y) = fl_inf (0 \<le> y)"
| "fl_div NInf (Fin y) = fl_inf (y < 0)"
| "fl_div _ _ = NaN"

fun fl_pow :: "fl \<Rightarrow> nat \<Rightarrow> fl" where
  "fl_pow (Fin x) n = Fin (x ^ n)"
| "fl_pow PInf n = (if n = 0 then Fin 1 else PInf)"
| "fl_pow NInf n = (if n = 0 then Fin 1 else fl_inf (even n))"
| "fl_pow NaN n = (if n = 0 then Fin 1 else NaN)"

text \<open>Comparisons: every comparison with \<open>nan\<close> is false.\<close>

fun fl_less :: "fl \<Rightarrow> fl \<Rightarrow> bool" where
  "fl_less NaN _ = False"
| "fl_less _ NaN = False"
| "fl_less (Fin x) (Fin y) = (x < y)"
| "fl_less _ NInf = False"
| "fl_less PInf _ = False"
| "fl_less _ _ = True"

fun fl_ge :: "fl \<Rightarrow> fl \<Rightarrow> bool" where
  "fl_ge NaN _ = False"
| "fl_ge _ NaN = False"
| "fl_ge (Fin x) (Fin y) = (y \<le> x)"
| "fl_ge PInf _ = True"
| "fl_ge _ NInf = True"
| "fl_ge _ _ = False"

text \<open>\<open>np.sum\<close> along one axis, and \<open>np.nansum\<close>, which reads every \<open>nan\<close> as zero.\<close>

fun fl_sum :: "fl list \<Rightarrow> fl" where
  "fl_sum [] = Fin 0"
| "fl_sum (x # xs) = fl_add x (fl_sum xs)"

definition nan_to_zero :: "fl \<Rightarrow> fl" where
  "nan_to_zero x = (if x = NaN then Fin 0 else x)"

definition nansum :: "fl list \<Rightarrow> fl" where
  "nansum xs = fl_sum (map nan_to_zero xs)"

text \<open>\<open>np.linalg.norm(v)\<close> of one vector: the Euclidean length.\<close>

definition linalg_norm :: "real list \<Rightarrow> real" where
  "linalg_norm v = sqrt (sum_list (map (\<lambda>x. x\<^sup>2) v))"


section \<open>Force derivative of the state vector\<close>

text \<open>
  The state vector \<open>S\<close> is an \<open>N \<times> 6\<close> array whose columns are
  \<open>x, y, z, v\<^sub>x, v\<^sub>y, v\<^sub>z\<close>: \<open>S = np.hstack((pos, vel))\<close>.
\<close>

definition hstack :: "real list list \<Rightarrow> real list list \<Rightarrow> real list list" where
  "hstack pos vel = map2 (@) pos vel"

text \<open>\<open>pos = S[:, 3:]\<close>, the array that the notebook goes on to difference.\<close>

definition pos_of_S :: "real list list \<Rightarrow> real list list" where
  "pos_of_S S = map (drop 3) S"

text \<open>
  \<open>xi = pos[:, np.newaxis]\<close>, \<open>xj = pos[np.newaxis]\<close>, \<open>dxij = xi - xj\<close>: broadcasting gives
  the \<open>N \<times> N \<times> 3\<close> array with \<open>dxij[i, j, k] = pos[i, k] - pos[j, k]\<close>.  A two-dimensional
  array is the list of its rows; the rows of an array have the same length, so the
  componentwise difference of two rows pairs every component.
\<close>

definition dxij :: "real list list \<Rightarrow> real list list list" where
  "dxij pos = map (\<lambda>xi. map (\<lambda>xj. map2 (-) xi xj) pos) pos"

text \<open>
  \<open>acc_matrix = G * mass * dxij / np.linalg.norm(dxij, axis=2)[..., np.newaxis]\<close> with
  \<open>mass\<close> reshaped to \<open>(1, N, 1)\<close>, so that entry \<open>[i, j, k]\<close> takes \<open>mass[j]\<close>: the product
  \<open>G * mass[j] * dxij[i, j, k]\<close> is formed first and then divided by the norm of
  \<open>dxij[i, j]\<close>.  There is one mass for every particle.  The norm is exact here, so it is
  zero for the zero vector only; in double arithmetic the norm of a separation whose
  components are all below about \<open>1.5e-162\<close> is \<open>0.0\<close> as well, and nothing below is
  stated about the entries of such pairs.
\<close>

definition acc_matrix :: "real \<Rightarrow> real list \<Rightarrow> real list list \<Rightarrow> fl list list list" where
  "acc_matrix G mass pos =
     map (\<lambda>row. map2 (\<lambda>m d. map (\<lambda>x. fl_div (Fin (G * m * x)) (Fin (linalg_norm d))) d)
                  mass row)
         (dxij pos)"

text \<open>
  \<open>-np.nansum(acc_matrix, axis=1)\<close>: for every \<open>i\<close> and each of the three components \<open>k\<close>,
  the sum over \<open>j\<close>, negated.
\<close>

definition neg_nansum_axis1 :: "fl list list list \<Rightarrow> fl list list" where
  "neg_nansum_axis1 A =
     map (\<lambda>row. map (\<lambda>k. fl_neg (nansum (map (\<lambda>v. v ! k) row))) [0..<3]) A"

text \<open>
  The whole derivative: \<open>dS[:, :3] = S[:, 3:]\<close> and
  \<open>dS[:, 3:] = -np.nansum(acc_matrix, axis=1)\<close>.
\<close>

definition dS_acc :: "real \<Rightarrow> real list \<Rightarrow> real list list \<Rightarrow> fl list list" where
  "dS_acc G mass S = neg_nansum_axis1 (acc_matrix G mass (pos_of_S S))"

definition dS :: "real \<Rightarrow> real list \<Rightarrow> real list list \<Rightarrow> fl list list" where
  "dS G mass S = map2 (\<lambda>s a. map Fin (drop 3 s) @ a) S (dS_acc G mass S)"


section \<open>Boolean masks\<close>

text \<open>
  \<open>A[M]\<close> for a two-dimensional array \<open>A\<close> and a boolean array \<open>M\<close> of the same shape: the
  entries of \<open>A\<close> where \<open>M\<close> is true, in row-major order, as a one-dimensional array.  The
  entries may be numbers or, for \<open>dxij[I1, :]\<close>, whole vectors.
\<close>

definition mask_row :: "'a list \<Rightarrow> bool list \<Rightarrow> 'a list" where
  "mask_row xs ms = map fst (filter snd (zip xs ms))"

definition bool_index :: "'a list list \<Rightarrow> bool list list \<Rightarrow> 'a list" where
  "bool_index A M = concat (map2 mask_row A M)"

definition count_true :: "bool list \<Rightarrow> nat" where
  "count_true ms = length (filter (\<lambda>m. m) ms)"

text \<open>
  \<open>A[M] = vs\<close>: the values \<open>vs\<close> are written, in order, to the places where \<open>M\<close> is true,
  again in row-major order; the other places keep their entry.  numpy refuses the
  assignment when the number of values is not the number of true places; the notebook
  always computes the values from a selection by the same mask (lemma
  \<open>length_bool_index\<close> below), so a list that runs out simply leaves the rest untouched here.
\<close>

fun put_row :: "'a list \<Rightarrow> bool list \<Rightarrow> 'a list \<Rightarrow> 'a list" where
  "put_row (x # xs) (True # ms) (v # vs) = v # put_row xs ms vs"
| "put_row (x # xs) (m # ms) vs = x # put_row xs ms vs"
| "put_row xs _ _ = xs"

fun mask_assign :: "'a list list \<Rightarrow> bool list list \<Rightarrow> 'a list \<Rightarrow> 'a list list" where
  "mask_assign (a # as) (m # ms) vs =
     put_row a m vs # mask_assign as ms (drop (count_true m) vs)"
| "mask_assign as _ _ = as"


section \<open>Kernel and kernel gradient\<close>

text \<open>
  \<open>dxij = pos[:, np.newaxis] - pos[np.newaxis]\<close> is \<^const>\<open>dxij\<close> again, now on an array of
  positions given directly.  \<open>rij = np.linalg.norm(dxij, axis=2)\<close> and
  \<open>R = np.linalg.norm(dxij, axis=2) / h\<close>.
\<close>

definition rij :: "real list list \<Rightarrow> real list list" where
  "rij pos = map (map linalg_norm) (dxij pos)"

definition R :: "real \<Rightarrow> real list list \<Rightarrow> fl list list" where
  "R h pos = map (map (\<lambda>r. fl_div (Fin r) (Fin h))) (rij pos)"

text \<open>\<open>I1 = (R >= 0) & (R < 1)\<close> and \<open>I2 = (R >= 1) & (R < 2)\<close>.\<close>

definition in_I1 :: "fl \<Rightarrow> bool" where
  "in_I1 r \<longleftrightarrow> fl_ge r (Fin 0) \<and> fl_less r (Fin 1)"

definition in_I2 :: "fl \<Rightarrow> bool" where
  "in_I2 r \<longleftrightarrow> fl_ge r (Fin 1) \<and> fl_less r (Fin 2)"

definition I1 :: "real \<Rightarrow> real list list \<Rightarrow> bool list list" where
  "I1 h pos = map (map in_I1) (R h pos)"

definition I2 :: "real \<Rightarrow> real list list \<Rightarrow> bool list list" where
  "I2 h pos = map (map in_I2) (R h pos)"

text \<open>
  The right-hand sides of the four masked assignments, for one selected entry:
  \<^verbatim>\<open>alpha * (2 / 3 - R[I1] ** 2 + 1 / 2 * R[I1] ** 3)\<close>,
  \<^verbatim>\<open>alpha * (1 / 6 * (2 - R[I2]) ** 3)\<close>,
  \<^verbatim>\<open>alpha * (-2 + 3 / 2 * R[I1][:, np.newaxis]) * dxij[I1, :] / h**2\<close> and
  \<^verbatim>\<open>alpha * (-1 / 2 * (2 - R[I2][:, np.newaxis]) ** 2) * dxij[I2, :] / (h * rij[I2][:, np.newaxis])\<close>.
  First the two of the kernel, then \<open>W = np.zeros_like(rij)\<close>, \<open>W[I1] = ...\<close>, \<open>W[I2] = ...\<close>.
\<close>

definition W_I1 :: "real \<Rightarrow> fl \<Rightarrow> fl" where
  "W_I1 alpha r =
     fl_mul (Fin alpha)
       (fl_add (fl_sub (Fin (2 / 3)) (fl_pow r 2)) (fl_mul (Fin (1 / 2)) (fl_pow r 3)))"

definition W_I2 :: "real \<Rightarrow> fl \<Rightarrow> fl" where
  "W_I2 alpha r = fl_mul (Fin alpha) (fl_mul (Fin (1 / 6)) (fl_pow (fl_sub (Fin 2) r) 3))"

definition W :: "real \<Rightarrow> real \<Rightarrow> real list list \<Rightarrow> fl list list" where
  "W alpha h pos =
     (let W0 = map (map (\<lambda>_. Fin 0)) (rij pos);
          W1 = mask_assign W0 (I1 h pos) (map (W_I1 alpha) (bool_index (R h pos) (I1 h pos)))
      in mask_assign W1 (I2 h pos) (map (W_I2 alpha) (bool_index (R h pos) (I2 h pos))))"

text \<open>
  The range of a double in the gradient.  A finite result whose magnitude reaches
  \<open>2^1024 - 2^970\<close> is rounded to an infinity, and one whose magnitude is at most
  \<open>2^-1075\<close> is rounded to zero; between the two the result is kept exact.
\<close>

definition dbl_overflow :: real where
  "dbl_overflow = (2 ^ 54 - 1) * 2 ^ 970"

definition dbl_underflow :: real where
  "dbl_underflow = 1 / 2 ^ 1075"

fun dbl :: "fl \<Rightarrow> fl" where
  "dbl (Fin x) =
     (if dbl_overflow \<le> \<bar>x\<bar> then fl_inf (0 < x)
      else if \<bar>x\<bar> \<le> dbl_underflow then Fin 0
      else Fin x)"
| "dbl v = v"

definition dbl_add :: "fl \<Rightarrow> fl \<Rightarrow> fl" where
  "dbl_add a b = dbl (fl_add a b)"

definition dbl_sub :: "fl \<Rightarrow> fl \<Rightarrow> fl" where
  "dbl_sub a b = dbl (fl_sub a b)"

definition dbl_mul :: "fl \<Rightarrow> fl \<Rightarrow> fl" where
  "dbl_mul a b = dbl (fl_mul a b)"

definition dbl_div :: "fl \<Rightarrow> fl \<Rightarrow> fl" where
  "dbl_div a b = dbl (fl_div a b)"

text \<open>
  \<open>h**2\<close> is a power of the Python float \<open>h\<close>, not an array operation: it raises
  OverflowError when the square is out of range, and is \<open>0.0\<close> when the square is too
  small.
\<close>

datatype py_error = OverflowError

definition float_pow2 :: "real \<Rightarrow> py_error + fl" where
  "float_pow2 h = (if dbl_overflow \<le> h\<^sup>2 then Inl OverflowError else Inr (dbl (Fin (h\<^sup>2))))"

text \<open>
  The right-hand sides of the two assignments to \<open>dW\<close>, for one selected entry; \<open>h2\<close> is the
  value of \<open>h**2\<close>.  Every operation is an array operation of numpy and raises nothing.
\<close>

definition dW_I1 :: "real \<Rightarrow> fl \<Rightarrow> fl \<times> real list \<Rightarrow> fl list" where
  "dW_I1 alpha h2 = (\<lambda>(r, dx).
     map (\<lambda>x. dbl_div
                (dbl_mul (dbl_mul (Fin alpha) (dbl_add (Fin (- 2)) (dbl_mul (Fin (3 / 2)) r)))
                         (Fin x))
                h2)
         dx)"

definition dW_I2 :: "real \<Rightarrow> real \<Rightarrow> fl \<times> real list \<times> real \<Rightarrow> fl list" where
  "dW_I2 alpha h = (\<lambda>(r, dx, rr).
     map (\<lambda>x. dbl_div
                (dbl_mul (dbl_mul (Fin alpha)
                                  (dbl_mul (Fin (- 1 / 2))
                                           (dbl_mul (dbl_sub (Fin 2) r) (dbl_sub (Fin 2) r))))
                         (Fin x))
                (dbl_mul (Fin h) (Fin rr)))
         dx)"

text \<open>
  \<open>dW = np.zeros_like(dxij)\<close>, then \<open>dW[I1] = ...\<close>, then \<open>dW[I2] = ...\<close>.  The masks are
  those of the kernel, and so are the separations and their norms; on the diagonal the
  separation is the zero vector in double arithmetic as well.  Evaluating the first
  right-hand side evaluates \<open>h**2\<close>; when that raises, nothing is assigned and the error is
  the outcome.
\<close>

definition dW_assign :: "real \<Rightarrow> real \<Rightarrow> fl \<Rightarrow> real list list \<Rightarrow> fl list list list" where
  "dW_assign alpha h h2 pos =
     (let dW0 = map (map (map (\<lambda>_. Fin 0))) (dxij pos);
          dW1 = mask_assign dW0 (I1 h pos)
                  (map (dW_I1 alpha h2)
                     (zip (bool_index (R h pos) (I1 h pos))
                          (bool_index (dxij pos) (I1 h pos))))
      in mask_assign dW1 (I2 h pos)
           (map (dW_I2 alpha h)
              (zip (bool_index (R h pos) (I2 h pos))
                   (zip (bool_index (dxij pos) (I2 h pos))
                        (bool_index (rij pos) (I2 h pos))))))"

definition dW :: "real \<Rightarrow> real \<Rightarrow> real list list \<Rightarrow> py_error + fl list list list" where
  "dW alpha h pos =
     (case float_pow2 h of
        Inl e \<Rightarrow> Inl e
      | Inr h2 \<Rightarrow> Inr (dW_assign alpha h h2 pos))"

text \<open>
  The number of neighbours of every particle, as the notebook reads it off the first
  mask: \<open>I1.sum(axis=0)\<close>, the number of true entries in each column of \<open>I1\<close>.
\<close>

definition I1_sum_axis0 :: "real \<Rightarrow> real list list \<Rightarrow> nat list" where
  "I1_sum_axis0 h pos =
     map (\<lambda>j. count_true (map (\<lambda>row. row ! j) (I1 h pos))) [0..<length pos]"


section \<open>Dot products of pairwise arrays\<close>

text \<open>
  The third formulation of the dot product ends in \<open>np.squeeze\<close>, whose result depends on
  the shape of its argument and not only on its entries.  The arrays of this part are
  therefore modelled with their shape: an array is its shape and its entries in row-major
  order, as numpy stores a contiguous array.  The entries are finite numbers; this part
  of the notebook does not divide.
\<close>

record ndarray =
  nd_shape :: "nat list"
  nd_data :: "real list"

datatype np_error = IndexError | ValueError | AxisError

text \<open>An array is well shaped when it has as many entries as its shape announces.\<close>

definition well_shaped :: "ndarray \<Rightarrow> bool" where
  "well_shaped a \<longleftrightarrow> length (nd_data a) = prod_list (nd_shape a)"

text \<open>
  \<open>a * b\<close> for two arrays of the same shape, the only case the notebook has.  (numpy also
  broadcasts operands of different compatible shapes; that is not needed here, and any
  pair of different shapes is reported as an error.)
\<close>

definition multiply :: "ndarray \<Rightarrow> ndarray \<Rightarrow> np_error + ndarray" where
  "multiply a b =
     (if nd_shape a = nd_shape b
      then Inr \<lparr>nd_shape = nd_shape a, nd_data = map2 (*) (nd_data a) (nd_data b)\<rparr>
      else Inl ValueError)"

text \<open>\<open>np.sum(a, axis=2)\<close>: the sum along the third axis; an array with fewer axes has none.\<close>

definition sum_axis2 :: "ndarray \<Rightarrow> np_error + ndarray" where
  "sum_axis2 a =
     (case nd_shape a of
        n1 # n2 # k # rest \<Rightarrow>
          Inr \<lparr>nd_shape = n1 # n2 # rest,
               nd_data = concat (map (\<lambda>b. map (\<lambda>r. \<Sum>t\<leftarrow>[0..<k].
                                   nd_data a ! ((b * k + t) * prod_list rest + r))
                                 [0..<prod_list rest])
                          [0..<n1 * n2])\<rparr>
      | _ \<Rightarrow> Inl AxisError)"

text \<open>
  \<^verbatim>\<open>np.einsum("ijk,ijk->ij", a, b)\<close>: for every \<open>i\<close> and \<open>j\<close>, the sum over \<open>k\<close> of
  \<open>a[i, j, k] * b[i, j, k]\<close>, for two three-dimensional operands of the same shape.
\<close>

definition einsum_ijk_ijk_ij :: "ndarray \<Rightarrow> ndarray \<Rightarrow> np_error + ndarray" where
  "einsum_ijk_ijk_ij a b =
     (case nd_shape a of
        [n1, n2, k] \<Rightarrow>
          if nd_shape b = [n1, n2, k]
          then Inr \<lparr>nd_shape = [n1, n2],
                    nd_data = concat (map (\<lambda>i. map (\<lambda>j. \<Sum>t\<leftarrow>[0..<k].
                                        nd_data a ! ((i * n2 + j) * k + t)
                                        * nd_data b ! ((i * n2 + j) * k + t))
                                      [0..<n2])
                               [0..<n1])\<rparr>
          else Inl ValueError
      | _ \<Rightarrow> Inl ValueError)"

text \<open>
  \<open>a[..., None, :]\<close> puts a new axis of length one before the last axis and
  \<open>a[..., :, None]\<close> puts one after it; the entries stay where they are.
\<close>

definition newaxis_before_last :: "ndarray \<Rightarrow> np_error + ndarray" where
  "newaxis_before_last a =
     (case nd_shape a of
        [] \<Rightarrow> Inl IndexError
      | s \<Rightarrow> Inr (a\<lparr>nd_shape := butlast s @ [1, last s]\<rparr>))"

definition newaxis_last :: "ndarray \<Rightarrow> np_error + ndarray" where
  "newaxis_last a =
     (case nd_shape a of
        [] \<Rightarrow> Inl IndexError
      | s \<Rightarrow> Inr (a\<lparr>nd_shape := s @ [1]\<rparr>))"

text \<open>
  \<open>a @ b\<close> for operands with at least two axes and the same leading (batch) axes: one
  matrix product of the last two axes for every batch index.  (numpy also accepts
  one-dimensional operands and broadcasts batch axes; the notebook forms neither, and
  such operands are reported as an error here.)
\<close>

definition matmul :: "ndarray \<Rightarrow> ndarray \<Rightarrow> np_error + ndarray" where
  "matmul a b =
     (let sa = nd_shape a; sb = nd_shape b
      in if length sa < 2 \<or> length sb < 2 then Inl ValueError
         else
           let batch = take (length sa - 2) sa;
               n = sa ! (length sa - 2); m = last sa;
               p = last sb
           in if take (length sb - 2) sb = batch \<and> sb ! (length sb - 2) = m
              then Inr \<lparr>nd_shape = batch @ [n, p],
                        nd_data = concat (map (\<lambda>c.
                                    concat (map (\<lambda>r. map (\<lambda>q. \<Sum>t\<leftarrow>[0..<m].
                                                nd_data a ! (c * n * m + r * m + t)
                                                * nd_data b ! (c * m * p + t * p + q))
                                              [0..<p])
                                       [0..<n]))
                                   [0..<prod_list batch])\<rparr>
              else Inl ValueError)"

text \<open>\<open>np.squeeze(a)\<close> with no axis given: every axis of length one is removed.\<close>

definition squeeze :: "ndarray \<Rightarrow> ndarray" where
  "squeeze a = a\<lparr>nd_shape := filter (\<lambda>d. d \<noteq> 1) (nd_shape a)\<rparr>"

text \<open>
  Reading \<open>a[i, j]\<close> with two non-negative indices: the sub-array at that place (a
  zero-dimensional array when \<open>a\<close> has two axes), or an IndexError when \<open>a\<close> has fewer than
  two axes or an index is out of range.
\<close>

definition item2 :: "ndarray \<Rightarrow> nat \<Rightarrow> nat \<Rightarrow> np_error + ndarray" where
  "item2 a i j =
     (case nd_shape a of
        n # m # rest \<Rightarrow>
          if i < n \<and> j < m
          then Inr \<lparr>nd_shape = rest,
                    nd_data = take (prod_list rest)
                                (drop ((i * m + j) * prod_list rest) (nd_data a))\<rparr>
          else Inl IndexError
      | _ \<Rightarrow> Inl IndexError)"

text \<open>
  The three formulations:
  \<^verbatim>\<open>dxdvij_A = np.sum(dxij * dvij, axis=2)\<close>,
  \<^verbatim>\<open>dxdvij_B = np.einsum("ijk,ijk->ij", dxij, dvij)\<close> and
  \<^verbatim>\<open>dxdvij_C = np.squeeze(dxij[..., None, :] @ dvij[..., :, None])\<close>.
\<close>

definition dxdvij_A :: "ndarray \<Rightarrow> ndarray \<Rightarrow> np_error + ndarray" where
  "dxdvij_A dx dv = (case multiply dx dv of Inl e \<Rightarrow> Inl e | Inr p \<Rightarrow> sum_axis2 p)"

definition dxdvij_B :: "ndarray \<Rightarrow> ndarray \<Rightarrow> np_error + ndarray" where
  "dxdvij_B dx dv = einsum_ijk_ijk_ij dx dv"

definition dxdvij_C :: "ndarray \<Rightarrow> ndarray \<Rightarrow> np_error + ndarray" where
  "dxdvij_C dx dv =
     (case newaxis_before_last dx of
        Inl e \<Rightarrow> Inl e
      | Inr a \<Rightarrow>
          (case newaxis_last dv of
             Inl e \<Rightarrow> Inl e
           | Inr b \<Rightarrow>
               (case matmul a b of Inl e \<Rightarrow> Inl e | Inr c \<Rightarrow> Inr (squeeze c))))"


section \<open>The quantities the specification names\<close>

text \<open>
  The following definitions are not taken from the notebook: they write down, for
  comparison with it, the formulas of the specification.

  The acceleration of particle \<open>i\<close> as specified:
  \<open>-sum_{j \<noteq> i} G * mass[j] * (position[i] - position[j]) / ||position[i] - position[j]||^3\<close>.
\<close>

definition acc_claimed :: "real \<Rightarrow> real list \<Rightarrow> real list list \<Rightarrow> nat \<Rightarrow> real list" where
  "acc_claimed G mass position i =
     map (\<lambda>k. - (\<Sum>j\<leftarrow>filter (\<lambda>j. j \<noteq> i) [0..<length position].
                    G * mass ! j * (position ! i ! k - position ! j ! k)
                    / linalg_norm (map2 (-) (position ! i) (position ! j)) ^ 3))
         [0..<3]"

text \<open>The normalised distance \<open>R[i, j] = ||position[i] - position[j]|| / h\<close>.\<close>

definition R_claimed :: "real \<Rightarrow> real list list \<Rightarrow> nat \<Rightarrow> nat \<Rightarrow> real" where
  "R_claimed h position i j = linalg_norm (map2 (-) (position ! i) (position ! j)) / h"

text \<open>
  The neighbour count as specified: the number of particles \<open>j \<noteq> i\<close> with
  \<open>0 \<le> R[i, j] < 2\<close>.
\<close>

definition neighbours_claimed :: "real \<Rightarrow> real list list \<Rightarrow> nat \<Rightarrow> nat" where
  "neighbours_claimed h position i =
     length (filter (\<lambda>j. j \<noteq> i \<and> 0 \<le> R_claimed h position i j \<and> R_claimed h position i j < 2)
               [0..<length position])"

text \<open>
  The dot products \<open>dot[i, j] = dx[i, j] . dv[i, j]\<close> of \<open>n\<close> pairs of 3-vectors stored
  one after the other.
\<close>

definition pair_dots :: "real list \<Rightarrow> real list \<Rightarrow> nat \<Rightarrow> real list" where
  "pair_dots xs ys n = map (\<lambda>c. \<Sum>t\<leftarrow>[0..<3]. xs ! (c * 3 + t) * ys ! (c * 3 + t)) [0..<n]"


section \<open>Boolean masks: selection followed by assignment\<close>

text \<open>
  An assignment \<open>A[M] = f(C[M])\<close>, whose values are computed entry by entry from a
  selection by the same mask, changes exactly the entries where the mask is true, and
  puts \<open>f (C[i, j])\<close> at place \<open>[i, j]\<close>.
\<close>

lemma mask_row_Cons:
  "mask_row (c # cs) (m # ms) = (if m then c # mask_row cs ms else mask_row cs ms)"
  by (simp add: mask_row_def)

lemma mask_row_Nil: "mask_row [] ms = []" "mask_row cs [] = []"
  by (simp_all add: mask_row_def)

lemma length_mask_row:
  "length cs = length ms \<Longrightarrow> length (mask_row cs ms) = count_true ms"
  by (induction cs ms rule: list_induct2) (simp_all add: mask_row_Cons mask_row_Nil count_true_def)

lemma length_put_row: "length (put_row xs ms vs) = length xs"
  by (induction xs ms vs rule: put_row.induct) simp_all

lemma put_row_mask:
  "length xs = length ms \<Longrightarrow> length cs = length ms \<Longrightarrow> n < length ms \<Longrightarrow>
   put_row xs ms (map f (mask_row cs ms) @ rest) ! n = (if ms ! n then f (cs ! n) else xs ! n)"
proof (induction ms arbitrary: xs cs n)
  case Nil
  then show ?case by simp
next
  case (Cons m ms)
  obtain x xs' where xs: "xs = x # xs'" using Cons.prems(1) by (cases xs) auto
  obtain c cs' where cs: "cs = c # cs'" using Cons.prems(2) by (cases cs) auto
  have len: "length xs' = length ms" "length cs' = length ms"
    using Cons.prems xs cs by auto
  show ?case
  proof (cases n)
    case 0
    then show ?thesis by (cases m) (simp_all add: xs cs mask_row_Cons)
  next
    case (Suc k)
    then have "k < length ms" using Cons.prems(3) by simp
    from Cons.IH[OF len this] show ?thesis
      by (cases m) (simp_all add: xs cs Suc mask_row_Cons)
  qed
qed

lemma length_mask_assign: "length (mask_assign A M vs) = length A"
  by (induction A M vs rule: mask_assign.induct) simp_all

lemma mask_assign_row_length:
  "i < length A \<Longrightarrow> length (mask_assign A M vs ! i) = length (A ! i)"
proof (induction A M vs arbitrary: i rule: mask_assign.induct)
  case (1 a as m ms vs)
  then show ?case by (cases i) (simp_all add: length_put_row)
qed simp_all

lemma bool_index_Cons:
  "bool_index (c # C) (m # M) = mask_row c m @ bool_index C M"
  by (simp add: bool_index_def)

lemma length_bool_index:
  "list_all2 (\<lambda>c m. length c = length m) C M \<Longrightarrow>
   length (bool_index C M) = sum_list (map count_true M)"
  by (induction C M rule: list_all2_induct)
     (simp_all add: bool_index_Cons length_mask_row, simp add: bool_index_def)

lemma mask_assign_bool_index:
  "list_all2 (\<lambda>a m. length a = length m) A M \<Longrightarrow>
   list_all2 (\<lambda>c m. length c = length m) C M \<Longrightarrow>
   i < length M \<Longrightarrow> j < length (M ! i) \<Longrightarrow>
   mask_assign A M (map f (bool_index C M) @ rest) ! i ! j =
     (if M ! i ! j then f (C ! i ! j) else A ! i ! j)"
proof (induction M arbitrary: A C i rest)
  case Nil
  then show ?case by simp
next
  case (Cons m M)
  obtain a A' where A: "A = a # A'" and la: "length a = length m"
    and A': "list_all2 (\<lambda>a m. length a = length m) A' M"
    using Cons.prems(1) by (auto simp: list_all2_Cons2)
  obtain c C' where C: "C = c # C'" and lc: "length c = length m"
    and C': "list_all2 (\<lambda>c m. length c = length m) C' M"
    using Cons.prems(2) by (auto simp: list_all2_Cons2)
  show ?case
  proof (cases i)
    case 0
    then have "j < length m" using Cons.prems(4) by simp
    from put_row_mask[OF la lc this, of f "map f (bool_index C' M) @ rest"]
    show ?thesis by (simp add: A C 0 bool_index_Cons)
  next
    case (Suc k)
    then have k: "k < length M" "j < length (M ! k)" using Cons.prems(3,4) by simp_all
    have "drop (count_true m) (map f (mask_row c m) @ map f (bool_index C' M) @ rest)
          = map f (bool_index C' M) @ rest"
      using length_mask_row[OF lc] by simp
    with Cons.IH[OF A' C' k, of rest] show ?thesis
      by (simp add: A C Suc bool_index_Cons)
  qed
qed

lemma mask_row_zip:
  "length as = length bs \<Longrightarrow> length bs = length ms \<Longrightarrow>
   zip (mask_row as ms) (mask_row bs ms) = mask_row (zip as bs) ms"
  by (induction as bs ms rule: list_induct3) (simp_all add: mask_row_Cons mask_row_Nil)

lemma bool_index_zip:
  "list_all2 (\<lambda>a m. length a = length m) A M \<Longrightarrow>
   list_all2 (\<lambda>b m. length b = length m) B M \<Longrightarrow>
   zip (bool_index A M) (bool_index B M) = bool_index (map2 zip A B) M"
proof (induction M arbitrary: A B)
  case Nil
  then show ?case by (simp add: bool_index_def)
next
  case (Cons m M)
  obtain a A' where A: "A = a # A'" and la: "length a = length m"
    and A': "list_all2 (\<lambda>a m. length a = length m) A' M"
    using Cons.prems(1) by (auto simp: list_all2_Cons2)
  obtain b B' where B: "B = b # B'" and lb: "length b = length m"
    and B': "list_all2 (\<lambda>c m. length c = length m) B' M"
    using Cons.prems(2) by (auto simp: list_all2_Cons2)
  have "length (mask_row a m) = length (mask_row b m)"
    by (simp add: length_mask_row la lb)
  then show ?case
    using Cons.IH[OF A' B'] by (simp add: A B bool_index_Cons mask_row_zip[of a b m] la lb)
qed


section \<open>Shapes and entries of the pairwise arrays\<close>

lemma length_dxij: "length (dxij pos) = length pos"
  by (simp add: dxij_def)

lemma dxij_nth:
  "i < length pos \<Longrightarrow> j < length pos \<Longrightarrow> dxij pos ! i ! j = map2 (-) (pos ! i) (pos ! j)"
  by (simp add: dxij_def)

lemma length_dxij_row: "i < length pos \<Longrightarrow> length (dxij pos ! i) = length pos"
  by (simp add: dxij_def)

lemma rij_nth:
  "i < length pos \<Longrightarrow> j < length pos \<Longrightarrow> rij pos ! i ! j = linalg_norm (dxij pos ! i ! j)"
  by (simp add: rij_def length_dxij length_dxij_row)

lemma R_nth:
  "i < length pos \<Longrightarrow> j < length pos \<Longrightarrow>
   R h pos ! i ! j = fl_div (Fin (rij pos ! i ! j)) (Fin h)"
  by (simp add: R_def rij_def length_dxij length_dxij_row)

lemma I1_nth:
  "i < length pos \<Longrightarrow> j < length pos \<Longrightarrow> I1 h pos ! i ! j = in_I1 (R h pos ! i ! j)"
  by (simp add: I1_def R_def rij_def length_dxij length_dxij_row)

lemma I2_nth:
  "i < length pos \<Longrightarrow> j < length pos \<Longrightarrow> I2 h pos ! i ! j = in_I2 (R h pos ! i ! j)"
  by (simp add: I2_def R_def rij_def length_dxij length_dxij_row)

lemma length_I1: "length (I1 h pos) = length pos"
  by (simp add: I1_def R_def rij_def length_dxij)

lemma length_I2: "length (I2 h pos) = length pos"
  by (simp add: I2_def R_def rij_def length_dxij)

lemma length_I1_row: "i < length pos \<Longrightarrow> length (I1 h pos ! i) = length pos"
  by (simp add: I1_def R_def rij_def length_dxij length_dxij_row)

lemma length_I2_row: "i < length pos \<Longrightarrow> length (I2 h pos ! i) = length pos"
  by (simp add: I2_def R_def rij_def length_dxij length_dxij_row)

lemma shape_map_map:
  "list_all2 (\<lambda>a m. length a = length m) (map (map f) A) (map (map g) A)"
  by (simp add: list_all2_map1 list_all2_map2 list_all2_same)

lemma shape_I1:
  "list_all2 (\<lambda>a m. length a = length m) (R h pos) (I1 h pos)"
  "list_all2 (\<lambda>a m. length a = length m) (rij pos) (I1 h pos)"
  "list_all2 (\<lambda>a m. length a = length m) (dxij pos) (I1 h pos)"
  "list_all2 (\<lambda>a m. length a = length m) (map (map (\<lambda>_. z)) (rij pos)) (I1 h pos)"
  "list_all2 (\<lambda>a m. length a = length m) (map (map f) (dxij pos)) (I1 h pos)"
  by (simp_all add: I1_def R_def rij_def list_all2_map1 list_all2_map2 list_all2_same)

lemma shape_I2:
  "list_all2 (\<lambda>a m. length a = length m) (R h pos) (I2 h pos)"
  "list_all2 (\<lambda>a m. length a = length m) (rij pos) (I2 h pos)"
  "list_all2 (\<lambda>a m. length a = length m) (dxij pos) (I2 h pos)"
  by (simp_all add: I2_def R_def rij_def list_all2_map1 list_all2_map2 list_all2_same)

lemma shape_mask_assign:
  "list_all2 (\<lambda>a m. length a = length m) A M \<Longrightarrow>
   list_all2 (\<lambda>a m. length a = length m) (mask_assign A M' vs) M"
  by (simp add: list_all2_conv_all_nth length_mask_assign mask_assign_row_length)

lemma mask_assign_map:
  "list_all2 (\<lambda>a m. length a = length m) A M \<Longrightarrow>
   list_all2 (\<lambda>c m. length c = length m) C M \<Longrightarrow>
   i < length M \<Longrightarrow> j < length (M ! i) \<Longrightarrow>
   mask_assign A M (map f (bool_index C M)) ! i ! j =
     (if M ! i ! j then f (C ! i ! j) else A ! i ! j)"
  using mask_assign_bool_index[where rest = "[]" and A = A and M = M and C = C and f = f]
  by simp

text \<open>
  Every entry of \<open>W\<close> and of \<open>dW\<close>, read off the two masked assignments: the second
  assignment is the later one, the first applies where the second does not, and the
  initial zeros remain elsewhere.
\<close>

lemma W_nth:
  assumes "i < length pos" "j < length pos"
  shows "W alpha h pos ! i ! j =
     (if in_I2 (R h pos ! i ! j) then W_I2 alpha (R h pos ! i ! j)
      else if in_I1 (R h pos ! i ! j) then W_I1 alpha (R h pos ! i ! j)
      else Fin 0)"
proof -
  let ?W0 = "map (map (\<lambda>_. Fin 0)) (rij pos)"
  let ?W1 = "mask_assign ?W0 (I1 h pos) (map (W_I1 alpha) (bool_index (R h pos) (I1 h pos)))"
  have W1: "?W1 ! i ! j = (if in_I1 (R h pos ! i ! j) then W_I1 alpha (R h pos ! i ! j) else Fin 0)"
    using mask_assign_map[OF shape_I1(4) shape_I1(1), where i = i and j = j and f = "W_I1 alpha"]
      assms
    by (simp add: length_I1 length_I1_row I1_nth rij_def length_dxij length_dxij_row)
  have "list_all2 (\<lambda>a m. length a = length m) ?W1 (I2 h pos)"
    by (rule shape_mask_assign)
       (simp add: I2_def R_def rij_def list_all2_map1 list_all2_map2 list_all2_same)
  from mask_assign_map[OF this shape_I2(1), where i = i and j = j and f = "W_I2 alpha"] assms W1
  show ?thesis
    by (simp add: W_def Let_def length_I2 length_I2_row I2_nth)
qed

lemma shape_map2_zip:
  "list_all2 (\<lambda>a m. length a = length m) A M \<Longrightarrow>
   list_all2 (\<lambda>b m. length b = length m) B M \<Longrightarrow>
   list_all2 (\<lambda>c m. length c = length m) (map2 zip A B) M"
  by (simp add: list_all2_conv_all_nth)

lemma map2_zip_nth:
  "list_all2 (\<lambda>a m. length a = length m) A M \<Longrightarrow>
   list_all2 (\<lambda>b m. length b = length m) B M \<Longrightarrow>
   i < length M \<Longrightarrow> j < length (M ! i) \<Longrightarrow>
   map2 zip A B ! i ! j = (A ! i ! j, B ! i ! j)"
  by (simp add: list_all2_conv_all_nth)

lemma dW_assign_nth:
  assumes "i < length pos" "j < length pos"
  shows "dW_assign alpha h h2 pos ! i ! j =
     (if in_I2 (R h pos ! i ! j)
      then dW_I2 alpha h (R h pos ! i ! j, dxij pos ! i ! j, rij pos ! i ! j)
      else if in_I1 (R h pos ! i ! j)
      then dW_I1 alpha h2 (R h pos ! i ! j, dxij pos ! i ! j)
      else map (\<lambda>_. Fin 0) (dxij pos ! i ! j))"
proof -
  let ?dW0 = "map (map (map (\<lambda>_. Fin 0))) (dxij pos)"
  let ?C1 = "map2 zip (R h pos) (dxij pos)"
  let ?C2 = "map2 zip (R h pos) (map2 zip (dxij pos) (rij pos))"
  let ?dW1 = "mask_assign ?dW0 (I1 h pos) (map (dW_I1 alpha h2) (bool_index ?C1 (I1 h pos)))"
  have i1: "i < length (I1 h pos)" "j < length (I1 h pos ! i)"
    and i2: "i < length (I2 h pos)" "j < length (I2 h pos ! i)"
    using assms by (simp_all add: length_I1 length_I1_row length_I2 length_I2_row)
  have z1: "zip (bool_index (R h pos) (I1 h pos)) (bool_index (dxij pos) (I1 h pos))
            = bool_index ?C1 (I1 h pos)"
    by (rule bool_index_zip[OF shape_I1(1) shape_I1(3)])
  have s23: "list_all2 (\<lambda>a m. length a = length m) (map2 zip (dxij pos) (rij pos)) (I2 h pos)"
    by (rule shape_map2_zip[OF shape_I2(3) shape_I2(2)])
  have z2: "zip (bool_index (R h pos) (I2 h pos))
                (zip (bool_index (dxij pos) (I2 h pos)) (bool_index (rij pos) (I2 h pos)))
            = bool_index ?C2 (I2 h pos)"
    by (simp add: bool_index_zip[OF shape_I2(3) shape_I2(2)] bool_index_zip[OF shape_I2(1) s23])
  have c1: "?C1 ! i ! j = (R h pos ! i ! j, dxij pos ! i ! j)"
    by (rule map2_zip_nth[OF shape_I1(1) shape_I1(3) i1])
  have c2: "?C2 ! i ! j = (R h pos ! i ! j, dxij pos ! i ! j, rij pos ! i ! j)"
    by (simp add: map2_zip_nth[OF shape_I2(1) s23 i2] map2_zip_nth[OF shape_I2(3) shape_I2(2) i2])
  have d0: "?dW0 ! i ! j = map (\<lambda>_. Fin 0) (dxij pos ! i ! j)"
    using assms by (simp add: length_dxij length_dxij_row)
  have dW1: "?dW1 ! i ! j =
      (if in_I1 (R h pos ! i ! j) then dW_I1 alpha h2 (R h pos ! i ! j, dxij pos ! i ! j)
       else map (\<lambda>_. Fin 0) (dxij pos ! i ! j))"
    using mask_assign_map[OF shape_I1(5) shape_map2_zip[OF shape_I1(1) shape_I1(3)] i1,
        where f = "dW_I1 alpha h2"] assms
    by (simp only: c1 d0 I1_nth)
  have "list_all2 (\<lambda>a m. length a = length m) ?dW1 (I2 h pos)"
    by (rule shape_mask_assign)
       (simp add: I2_def R_def rij_def list_all2_map1 list_all2_map2 list_all2_same)
  from mask_assign_map[OF this shape_map2_zip[OF shape_I2(1) s23] i2, where f = "dW_I2 alpha h"]
  have "mask_assign ?dW1 (I2 h pos) (map (dW_I2 alpha h) (bool_index ?C2 (I2 h pos))) ! i ! j
        = (if in_I2 (R h pos ! i ! j)
           then dW_I2 alpha h (R h pos ! i ! j, dxij pos ! i ! j, rij pos ! i ! j)
           else ?dW1 ! i ! j)"
    using assms by (simp only: c2 I2_nth)
  then show ?thesis
    by (simp only: dW_assign_def Let_def z1 z2 dW1)
qed


section \<open>Norms, masks and kernel values on finite numbers\<close>

lemma linalg_norm_nonneg: "0 \<le> linalg_norm v"
  unfolding linalg_norm_def by (intro real_sqrt_ge_zero sum_list_nonneg) auto

lemma map2_minus_self: "map2 (-) p p = map (\<lambda>_. 0::real) p"
  by (simp add: zip_same_conv_map)

lemma linalg_norm_zeros: "linalg_norm (map (\<lambda>_. 0) p) = 0"
  unfolding linalg_norm_def by (induction p) simp_all

lemma dxij_diag: "i < length pos \<Longrightarrow> dxij pos ! i ! i = map (\<lambda>_. 0) (pos ! i)"
  by (simp add: dxij_nth map2_minus_self)

lemma rij_diag: "i < length pos \<Longrightarrow> rij pos ! i ! i = 0"
  by (simp add: rij_nth dxij_diag linalg_norm_zeros)

lemma in_I1_Fin: "in_I1 (Fin x) \<longleftrightarrow> 0 \<le> x \<and> x < 1"
  by (simp add: in_I1_def)

lemma in_I2_Fin: "in_I2 (Fin x) \<longleftrightarrow> 1 \<le> x \<and> x < 2"
  by (simp add: in_I2_def)

lemma in_I1_special: "\<not> in_I1 NaN" "\<not> in_I1 PInf" "\<not> in_I1 NInf"
  by (simp_all add: in_I1_def)

lemma in_I2_special: "\<not> in_I2 NaN" "\<not> in_I2 PInf" "\<not> in_I2 NInf"
  by (simp_all add: in_I2_def)

lemma W_I1_Fin: "W_I1 alpha (Fin x) = Fin (alpha * (2 / 3 - x\<^sup>2 + x ^ 3 / 2))"
  by (simp add: W_I1_def fl_sub_def)

lemma W_I2_Fin: "W_I2 alpha (Fin x) = Fin (alpha * ((2 - x) ^ 3 / 6))"
  by (simp add: W_I2_def fl_sub_def)

lemma R_Fin:
  "h \<noteq> 0 \<Longrightarrow> i < length pos \<Longrightarrow> j < length pos \<Longrightarrow>
   R h pos ! i ! j = Fin (linalg_norm (map2 (-) (pos ! i) (pos ! j)) / h)"
  by (simp add: R_nth rij_nth dxij_nth)

lemma dbl_overflow_gt: "4 < dbl_overflow"
proof -
  have "(1::real) \<le> 2 ^ 970" by (rule one_le_power) simp
  then have "(2 ^ 54 - 1) * (1::real) \<le> (2 ^ 54 - 1) * 2 ^ 970"
    by (intro mult_left_mono) simp_all
  then show ?thesis by (simp add: dbl_overflow_def)
qed

lemma dbl_underflow_pos: "0 < dbl_underflow"
  by (simp add: dbl_underflow_def)

lemma dbl_underflow_lt: "dbl_underflow < 1"
proof -
  have "(1::real) < 2 ^ 1075" by (rule one_less_power) simp_all
  then show ?thesis by (simp add: dbl_underflow_def)
qed

lemma dbl_zero: "dbl (Fin 0) = Fin 0"
  using dbl_overflow_gt dbl_underflow_pos by simp

lemma dbl_minus_two: "dbl (Fin (- 2)) = Fin (- 2)"
  using dbl_overflow_gt dbl_underflow_lt by simp

text \<open>
  The first right-hand side at a selected diagonal entry, where \<open>R = 0\<close> and the
  separation is zero: the factor \<open>alpha * (-2 + 3/2 * 0)\<close> is \<open>-2 * alpha\<close> or, when that
  overflows, an infinity; times zero it is zero or \<open>nan\<close>; and zero divided by \<open>h**2\<close> is
  zero unless \<open>h**2\<close> is zero.
\<close>

lemma dW_I1_zero_entry:
  "dbl_div (dbl_mul (dbl_mul (Fin alpha) (dbl_add (Fin (- 2)) (dbl_mul (Fin (3 / 2)) (Fin 0))))
                    (Fin 0))
           (Fin v)
   = (if 2 * \<bar>alpha\<bar> < dbl_overflow \<and> v \<noteq> 0 then Fin 0 else NaN)"
proof -
  have a: "dbl_add (Fin (- 2)) (dbl_mul (Fin (3 / 2)) (Fin 0)) = Fin (- 2)"
    by (simp only: dbl_mul_def dbl_add_def fl_mul.simps fl_add.simps mult_zero_right
        add_0_right dbl_zero dbl_minus_two)
  show ?thesis
  proof (cases "2 * \<bar>alpha\<bar> < dbl_overflow")
    case True
    then have "\<exists>c. dbl_mul (Fin alpha) (Fin (- 2)) = Fin c"
      by (simp add: dbl_mul_def abs_mult)
    then obtain c where c: "dbl_mul (Fin alpha) (Fin (- 2)) = Fin c" ..
    have "dbl_mul (Fin c) (Fin 0) = Fin 0" by (simp add: dbl_mul_def dbl_zero del: dbl.simps(1))
    with a c True show ?thesis
      by (simp add: dbl_div_def dbl_zero del: dbl.simps(1))
  next
    case False
    then have "dbl_mul (Fin alpha) (Fin (- 2)) = fl_inf (0 < alpha * - 2)"
      by (simp add: dbl_mul_def abs_mult)
    then have "dbl_mul (dbl_mul (Fin alpha) (Fin (- 2))) (Fin 0) = NaN"
      by (simp add: dbl_mul_def fl_inf_def)
    with a False show ?thesis by (simp add: dbl_div_def)
  qed
qed

lemma dW_I1_diag:
  "dW_I1 alpha (Fin v) (Fin 0, map (\<lambda>_. 0) p)
   = map (\<lambda>_. if 2 * \<bar>alpha\<bar> < dbl_overflow \<and> v \<noteq> 0 then Fin 0 else NaN) p"
  by (simp only: dW_I1_def prod.case map_map o_def dW_I1_zero_entry)

lemma float_pow2_cases:
  "float_pow2 h =
     (if dbl_overflow \<le> h\<^sup>2 then Inl OverflowError
      else if h\<^sup>2 \<le> dbl_underflow then Inr (Fin 0)
      else Inr (Fin (h\<^sup>2)))"
  by (simp add: float_pow2_def)

lemma dW_assign_diag:
  assumes "i < length pos"
  shows "dW_assign alpha h (Fin v) pos ! i ! i =
     (if h = 0 then map (\<lambda>_. Fin 0) (pos ! i)
      else dW_I1 alpha (Fin v) (R h pos ! i ! i, dxij pos ! i ! i))"
proof (cases "h = 0")
  case True
  then have "R h pos ! i ! i = NaN" using assms by (simp add: R_nth rij_diag)
  then show ?thesis
    using assms True by (simp add: dW_assign_nth in_I1_special in_I2_special dxij_diag)
next
  case False
  then have "R h pos ! i ! i = Fin 0" using assms by (simp add: R_nth rij_diag)
  then show ?thesis
    using assms False by (simp add: dW_assign_nth in_I1_Fin in_I2_Fin)
qed

lemma I2_diag: "i < length pos \<Longrightarrow> \<not> I2 h pos ! i ! i"
  by (cases "h = 0") (simp_all add: I2_nth R_nth rij_diag in_I2_Fin in_I2_special)

lemma count_true_map: "count_true (map P xs) = length (filter P xs)"
  by (induction xs) (simp_all add: count_true_def)

lemma I1_column:
  "i < length pos \<Longrightarrow>
   map (\<lambda>row. row ! i) (I1 h pos) = map (\<lambda>j. in_I1 (R h pos ! j ! i)) [0..<length pos]"
  by (rule nth_equalityI) (simp_all add: length_I1 I1_nth)

lemma I1_sum_axis0_nth:
  "i < length pos \<Longrightarrow>
   I1_sum_axis0 h pos ! i = length (filter (\<lambda>j. in_I1 (R h pos ! j ! i)) [0..<length pos])"
proof -
  assume i: "i < length pos"
  then have "I1_sum_axis0 h pos ! i = count_true (map (\<lambda>row. row ! i) (I1 h pos))"
    by (simp add: I1_sum_axis0_def)
  also have "\<dots> = count_true (map (\<lambda>j. in_I1 (R h pos ! j ! i)) [0..<length pos])"
    by (simp only: I1_column[OF i])
  also have "\<dots> = length (filter (\<lambda>j. in_I1 (R h pos ! j ! i)) [0..<length pos])"
    by (rule count_true_map)
  finally show ?thesis .
qed

lemma length_filter_mono:
  "(\<And>x. x \<in> set xs \<Longrightarrow> P x \<Longrightarrow> Q x) \<Longrightarrow> length (filter P xs) \<le> length (filter Q xs)"
  by (induction xs) auto

lemma linalg_norm_swap: "linalg_norm (map2 (-) p q) = linalg_norm (map2 (-) q p)"
proof -
  have "map (\<lambda>x. x\<^sup>2) (map2 (-) p q) = map (\<lambda>x. x\<^sup>2) (map2 (-) q p)"
  proof (induction p arbitrary: q)
    case Nil
    then show ?case by simp
  next
    case (Cons a p)
    then show ?case by (cases q) (simp_all add: power2_commute)
  qed
  then show ?thesis by (simp add: linalg_norm_def)
qed

lemma I1_sum_axis0_mono:
  assumes "0 < h'" "h' \<le> h" "i < length pos"
  shows "I1_sum_axis0 h' pos ! i \<le> I1_sum_axis0 h pos ! i"
proof -
  have "in_I1 (R h pos ! j ! i)" if "j \<in> set [0..<length pos]" "in_I1 (R h' pos ! j ! i)" for j
  proof -
    let ?r = "linalg_norm (map2 (-) (pos ! j) (pos ! i))"
    have j: "j < length pos" using that(1) by simp
    have r0: "0 \<le> ?r" by (rule linalg_norm_nonneg)
    from that(2) have "?r / h' < 1" using assms(1,3) j by (simp add: R_Fin in_I1_Fin)
    then have "?r < h'" using assms(1) by (simp add: pos_divide_less_eq)
    then have "?r < h" using assms(2) by simp
    then have "?r / h < 1" "0 \<le> ?r / h" using assms(1,2) r0 by (simp_all add: pos_divide_less_eq)
    then show ?thesis using assms j by (simp add: R_Fin in_I1_Fin)
  qed
  then show ?thesis
    unfolding I1_sum_axis0_nth[OF assms(3)] by (rule length_filter_mono)
qed


section \<open>Entries of the acceleration matrix\<close>

lemma length_acc_matrix: "length (acc_matrix G mass pos) = length pos"
  by (simp add: acc_matrix_def length_dxij)

lemma acc_matrix_row:
  assumes "length mass = length pos" "i < length pos"
  shows "acc_matrix G mass pos ! i =
     map (\<lambda>j. map (\<lambda>x. fl_div (Fin (G * mass ! j * x)) (Fin (linalg_norm (dxij pos ! i ! j))))
                 (dxij pos ! i ! j))
         [0..<length pos]"
  using assms
  by (intro nth_equalityI) (simp_all add: acc_matrix_def length_dxij length_dxij_row)

lemma length_acc_matrix_row:
  "length mass = length pos \<Longrightarrow> i < length pos \<Longrightarrow>
   length (acc_matrix G mass pos ! i) = length pos"
  by (simp add: acc_matrix_def length_dxij length_dxij_row)

lemma acc_matrix_nth:
  assumes "length mass = length pos" "i < length pos" "j < length pos"
  shows "acc_matrix G mass pos ! i ! j =
     map (\<lambda>x. fl_div (Fin (G * mass ! j * x)) (Fin (linalg_norm (dxij pos ! i ! j))))
         (dxij pos ! i ! j)"
  using assms by (simp add: acc_matrix_row)

lemma acc_coincident:
  assumes "length mass = length pos" "i < length pos" "j < length pos" "pos ! j = pos ! i"
  shows "acc_matrix G mass pos ! i ! j = map (\<lambda>_. NaN) (pos ! i)"
  using assms
  by (simp add: acc_matrix_nth dxij_nth map2_minus_self linalg_norm_zeros)

lemma fl_add_zero: "fl_add (Fin 0) b = b"
  by (cases b) simp_all

lemma nansum_filter:
  assumes "\<And>x. x \<in> set xs \<Longrightarrow> \<not> P x \<Longrightarrow> g x = NaN"
  shows "nansum (map g xs) = nansum (map g (filter P xs))"
  using assms
  by (induction xs) (simp_all add: nansum_def nan_to_zero_def fl_add_zero)

lemma neg_nansum_axis1_nth:
  "i < length A \<Longrightarrow> k < 3 \<Longrightarrow>
   neg_nansum_axis1 A ! i ! k = fl_neg (nansum (map (\<lambda>v. v ! k) (A ! i)))"
  by (simp add: neg_nansum_axis1_def)


lemma map2_minus_swap: "map2 (-) p q = map uminus (map2 (-) q (p :: real list))"
proof (induction p arbitrary: q)
  case Nil
  then show ?case by simp
next
  case (Cons a p)
  then show ?case by (cases q) simp_all
qed

lemma dxij_props:
  assumes "i < length pos" "j < length pos"
  shows "dxij pos ! i ! i = map (\<lambda>_. 0) (pos ! i)
       \<and> dxij pos ! i ! j = map uminus (dxij pos ! j ! i)
       \<and> dxij pos ! i ! j = map2 (-) (pos ! i) (pos ! j)"
  using assms map2_minus_swap[of "pos ! i" "pos ! j"] by (simp add: dxij_nth map2_minus_self)



section \<open>Sums of array values\<close>

lemma fl_add_commute: "fl_add a b = fl_add b a"
  by (cases a; cases b) simp_all

lemma fl_add_assoc: "fl_add (fl_add a b) c = fl_add a (fl_add b c)"
  by (cases a; cases b; cases c) simp_all

lemma fl_sum_append: "fl_sum (xs @ ys) = fl_add (fl_sum xs) (fl_sum ys)"
  by (induction xs) (simp_all add: fl_add_zero fl_add_assoc)

lemma fl_sum_pick:
  assumes "i < length xs"
  shows "fl_sum xs = fl_add (xs ! i) (fl_sum (take i xs @ drop (Suc i) xs))"
proof -
  have "fl_sum xs = fl_sum (take i xs @ xs ! i # drop (Suc i) xs)"
    using id_take_nth_drop[OF assms] by simp
  also have "\<dots> = fl_add (fl_sum (take i xs)) (fl_add (xs ! i) (fl_sum (drop (Suc i) xs)))"
    by (simp add: fl_sum_append)
  also have "\<dots> = fl_add (xs ! i) (fl_add (fl_sum (take i xs)) (fl_sum (drop (Suc i) xs)))"
    by (metis fl_add_assoc fl_add_commute)
  finally show ?thesis by (simp add: fl_sum_append)
qed

lemma length_W_row: "i < length pos \<Longrightarrow> length (W alpha h pos ! i) = length pos"
  by (simp add: W_def Let_def mask_assign_row_length length_mask_assign rij_def length_dxij
      length_dxij_row)



section \<open>The three dot products on arrays of shape \<open>(N, N, 3)\<close>\<close>

lemma concat_rows:
  "concat (map (\<lambda>i. map (\<lambda>j. f (i * n + j)) [0..<n]) [0..<m]) = map f [0..<m * n]"
proof (induction m)
  case 0
  then show ?case by simp
next
  case (Suc m)
  have split: "[0..<m * n + n] = [0..<m * n] @ [m * n..<m * n + n]"
    by (rule upt_add_eq_append) simp
  have "[m * n..<m * n + n] = map (\<lambda>j. j + m * n) [0..<n]"
    by (simp only: map_add_upt add.commute)
  then have "map f [m * n..<m * n + n] = map (\<lambda>j. f (m * n + j)) [0..<n]"
    by (simp only: map_map o_def add.commute)
  with Suc split show ?case by (simp add: add.commute)
qed


lemma upt_0_1: "[0..<1] = [0::nat]"
  by (simp add: upt_rec)

lemma dxdvij_A_value:
  assumes "nd_shape dx = [N, N, 3]" "nd_shape dv = [N, N, 3]"
    "length (nd_data dx) = N * N * 3" "length (nd_data dv) = N * N * 3"
  shows "dxdvij_A dx dv = Inr \<lparr>nd_shape = [N, N], nd_data = pair_dots (nd_data dx) (nd_data dv) (N * N)\<rparr>"
proof -
  have "map (\<lambda>b. \<Sum>t\<leftarrow>[0..<3]. map2 (*) (nd_data dx) (nd_data dv) ! (b * 3 + t)) [0..<N * N]
      = pair_dots (nd_data dx) (nd_data dv) (N * N)"
    unfolding pair_dots_def
  proof (rule map_cong[OF refl])
    fix b assume "b \<in> set [0..<N * N]"
    then have "b * 3 + t < N * N * 3" if "t < 3" for t using that by simp
    then have "\<And>t. t \<in> set [0..<3] \<Longrightarrow> map2 (*) (nd_data dx) (nd_data dv) ! (b * 3 + t)
        = nd_data dx ! (b * 3 + t) * nd_data dv ! (b * 3 + t)"
      using assms(3,4) by simp
    then show "(\<Sum>t\<leftarrow>[0..<3]. map2 (*) (nd_data dx) (nd_data dv) ! (b * 3 + t))
       = (\<Sum>t\<leftarrow>[0..<3]. nd_data dx ! (b * 3 + t) * nd_data dv ! (b * 3 + t))"
      by (intro arg_cong[where f = sum_list] map_cong refl)
  qed
  then show ?thesis
    using assms(1,2)
    by (simp add: dxdvij_A_def multiply_def sum_axis2_def upt_0_1 o_def)
qed


lemma dxdvij_B_value:
  assumes "nd_shape dx = [N, N, 3]" "nd_shape dv = [N, N, 3]"
  shows "dxdvij_B dx dv = Inr \<lparr>nd_shape = [N, N], nd_data = pair_dots (nd_data dx) (nd_data dv) (N * N)\<rparr>"
  using assms
    concat_rows[of "\<lambda>c. \<Sum>t\<leftarrow>[0..<3]. nd_data dx ! (c * 3 + t) * nd_data dv ! (c * 3 + t)" N N]
  by (simp add: dxdvij_B_def einsum_ijk_ijk_ij_def pair_dots_def)


lemma matmul_row_col:
  assumes "nd_shape a = [N, N, 1, 3]" "nd_shape b = [N, N, 3, 1]"
  shows "matmul a b = Inr \<lparr>nd_shape = [N, N, 1, 1], nd_data = pair_dots (nd_data a) (nd_data b) (N * N)\<rparr>"
proof -
  have "take (length (nd_shape a) - 2) (nd_shape a) = [N, N]"
       "take (length (nd_shape b) - 2) (nd_shape b) = [N, N]"
       "nd_shape a ! (length (nd_shape a) - 2) = 1" "last (nd_shape a) = 3"
       "nd_shape b ! (length (nd_shape b) - 2) = 3" "last (nd_shape b) = 1"
       "\<not> length (nd_shape a) < 2" "\<not> length (nd_shape b) < 2"
    by (simp_all add: assms)
  then show ?thesis
    by (simp add: matmul_def Let_def pair_dots_def upt_0_1)
qed

lemma dxdvij_C_value:
  assumes "nd_shape dx = [N, N, 3]" "nd_shape dv = [N, N, 3]"
  shows "dxdvij_C dx dv =
    Inr \<lparr>nd_shape = (if N = 1 then [] else [N, N]), nd_data = pair_dots (nd_data dx) (nd_data dv) (N * N)\<rparr>"
proof -
  have a: "newaxis_before_last dx = Inr (dx\<lparr>nd_shape := [N, N, 1, 3]\<rparr>)"
    by (simp add: newaxis_before_last_def assms)
  have b: "newaxis_last dv = Inr (dv\<lparr>nd_shape := [N, N, 3, 1]\<rparr>)"
    by (simp add: newaxis_last_def assms)
  show ?thesis
    by (simp add: dxdvij_C_def a b matmul_row_col squeeze_def)
qed


text \<open>
  For well-shaped operands of shape \<open>(N, N, 3)\<close> the three formulations compute the same
  entries, the dot product of every pair; the first two return them with shape
  \<open>(N, N)\<close>, and so does the third unless \<open>N = 1\<close>, where \<open>np.squeeze\<close> removes the two
  particle axes as well.
\<close>

lemma dxdvij_agree:
  assumes "nd_shape dx = [N, N, 3]" "nd_shape dv = [N, N, 3]"
    "well_shaped dx" "well_shaped dv"
  shows "dxdvij_A dx dv = Inr \<lparr>nd_shape = [N, N], nd_data = pair_dots (nd_data dx) (nd_data dv) (N * N)\<rparr>
     \<and> dxdvij_B dx dv = dxdvij_A dx dv
     \<and> dxdvij_C dx dv = Inr \<lparr>nd_shape = (if N = 1 then [] else [N, N]),
                              nd_data = pair_dots (nd_data dx) (nd_data dv) (N * N)\<rparr>"
proof -
  have len: "length (nd_data dx) = N * N * 3" "length (nd_data dv) = N * N * 3"
    using assms by (simp_all add: well_shaped_def)
  show ?thesis
    using dxdvij_A_value[OF assms(1,2) len] dxdvij_B_value[OF assms(1,2)] dxdvij_C_value[OF assms(1,2)] by simp
qed

text \<open>
  Read entry by entry: for \<open>N\<close> other than \<open>1\<close> and every \<open>i, j < N\<close>, the entry \<open>[i, j]\<close> of
  each of the three results is the dot product of the pair \<open>(i, j)\<close>.
\<close>

lemma item2_pair_dots:
  assumes "i < N" "j < N"
  shows "item2 \<lparr>nd_shape = [N, N], nd_data = pair_dots xs ys (N * N)\<rparr> i j
     = Inr \<lparr>nd_shape = [], nd_data = [pair_dots xs ys (N * N) ! (i * N + j)]\<rparr>"
proof -
  have "i * N + j < Suc i * N" using assms(2) by simp
  also have "\<dots> \<le> N * N" using assms(1) by (simp only: Suc_leI mult_le_mono1)
  finally have "i * N + j < length (pair_dots xs ys (N * N))" by (simp add: pair_dots_def)
  then have "take 1 (drop (i * N + j) (pair_dots xs ys (N * N)))
      = [pair_dots xs ys (N * N) ! (i * N + j)]"
    by (simp add: take_Suc_conv_app_nth)
  then show ?thesis using assms by (simp add: item2_def)
qed

lemma dxdvij_entries:
  assumes "nd_shape dx = [N, N, 3]" "nd_shape dv = [N, N, 3]"
    "well_shaped dx" "well_shaped dv" "N \<noteq> 1" "i < N" "j < N"
  shows "\<exists>a b c. dxdvij_A dx dv = Inr a \<and> dxdvij_B dx dv = Inr b \<and> dxdvij_C dx dv = Inr c
     \<and> item2 a i j = item2 b i j \<and> item2 b i j = item2 c i j
     \<and> item2 a i j = Inr \<lparr>nd_shape = [],
          nd_data = [\<Sum>t\<leftarrow>[0..<3]. nd_data dx ! ((i * N + j) * 3 + t)
                                  * nd_data dv ! ((i * N + j) * 3 + t)]\<rparr>"
proof -
  have "i * N + j < Suc i * N" using assms(7) by simp
  also have "\<dots> \<le> N * N" using assms(6) by (simp only: Suc_leI mult_le_mono1)
  finally have "pair_dots (nd_data dx) (nd_data dv) (N * N) ! (i * N + j)
      = (\<Sum>t\<leftarrow>[0..<3]. nd_data dx ! ((i * N + j) * 3 + t) * nd_data dv ! ((i * N + j) * 3 + t))"
    by (simp add: pair_dots_def)
  then show ?thesis
    using dxdvij_agree[OF assms(1-4)] assms(5) item2_pair_dots[OF assms(6,7)] by simp
qed


section \<open>The state vector and the array that is differenced\<close>

text \<open>
  With \<open>S = np.hstack((pos, vel))\<close> and three position columns, \<open>S[:, 3:]\<close> is the velocity
  array: the array that the first part of the notebook names \<open>pos\<close> and differences holds
  the velocities.
\<close>

lemma pos_of_S_hstack:
  assumes "length pos = length vel" "\<forall>p\<in>set pos. length p = 3"
  shows "pos_of_S (hstack pos vel) = vel"
  using assms
  by (induction pos vel rule: list_induct2) (simp_all add: pos_of_S_def hstack_def)

lemmas part1_eval = dS_acc_def neg_nansum_axis1_def acc_matrix_def dxij_def pos_of_S_def
  hstack_def linalg_norm_def nansum_def nan_to_zero_def acc_claimed_def

lemmas part2_eval = I1_sum_axis0_def I1_def R_def rij_def dxij_def linalg_norm_def in_I1_def
  count_true_def neighbours_claimed_def R_claimed_def


section \<open>Claims about the force accumulation\<close>

text \<open>
  Claim C1: for pairwise-distinct positions the accumulation returns, for each particle
  \<open>i\<close>, \<open>-sum_{j \<noteq> i} G * mass[j] * (position[i] - position[j]) / ||position[i] - position[j]||^3\<close>,
  with \<open>position\<close> the positions and not the velocities.

  The notebook does not compute this.  It differences \<open>S[:, 3:]\<close>, the velocity columns
  (lemma \<open>pos_of_S_hstack\<close>), and it divides by the norm, not by its cube.  Two particles at
  \<open>(0, 0, 0)\<close> and \<open>(1, 0, 0)\<close>, both at rest, with masses \<open>1\<close> and \<open>2\<close> and \<open>G = 1\<close>: the
  specified acceleration of particle \<open>0\<close> is \<open>(2, 0, 0)\<close>, the notebook's is \<open>(0, 0, 0)\<close>.
  With the second particle at \<open>(2, 0, 0)\<close> and velocities equal to the positions, so that
  the choice of columns makes no difference, the specified value is \<open>(1/2, 0, 0)\<close> and the
  notebook's is \<open>(2, 0, 0)\<close>.
\<close>

theorem dS_acc_end_to_end:
  "dS_acc 1 [1, 2] (hstack [[0, 0, 0], [1, 0, 0]] [[0, 0, 0], [0, 0, 0]]) ! 0
     = [Fin 0, Fin 0, Fin 0]
   \<and> acc_claimed 1 [1, 2] [[0, 0, 0], [1, 0, 0]] 0 = [2, 0, 0]
   \<and> dS_acc 1 [1, 2] (hstack [[0, 0, 0], [2, 0, 0]] [[0, 0, 0], [2, 0, 0]]) ! 0
     = [Fin 2, Fin 0, Fin 0]
   \<and> acc_claimed 1 [1, 2] [[0, 0, 0], [2, 0, 0]] 0 = [1 / 2, 0, 0]"
  by (simp add: part1_eval upt_conv_Cons)

text \<open>
  Claim C6, as stated: the self term is excluded exactly, and the not-a-number discard
  does not also drop a pair of distinct particles at the same place.

  It does.  Three particles, the first two identical (same position, same velocity),
  masses \<open>1, 5, 1\<close>: the entry of the acceleration matrix for the pair \<open>(0, 1)\<close> is \<open>nan\<close> in
  every component, nothing is raised, and the acceleration of particle \<open>0\<close> is what it
  would be if particle \<open>1\<close> had no mass.
\<close>

theorem nansum_masks_coincident_pair:
  "acc_matrix 1 [1, 5, 1]
     (pos_of_S (hstack [[0, 0, 0], [0, 0, 0], [1, 0, 0]] [[0, 0, 0], [0, 0, 0], [1, 0, 0]])) ! 0 ! 1
     = [NaN, NaN, NaN]
   \<and> dS_acc 1 [1, 5, 1] (hstack [[0, 0, 0], [0, 0, 0], [1, 0, 0]] [[0, 0, 0], [0, 0, 0], [1, 0, 0]]) ! 0
     = [Fin 1, Fin 0, Fin 0]
   \<and> dS_acc 1 [1, 0, 1] (hstack [[0, 0, 0], [0, 0, 0], [1, 0, 0]] [[0, 0, 0], [0, 0, 0], [1, 0, 0]]) ! 0
     = [Fin 1, Fin 0, Fin 0]"
  by (simp add: part1_eval upt_conv_Cons)

text \<open>
  Claim C6, amended: in the accumulation over an array \<open>pos\<close> of \<open>N\<close> 3-vectors, the self
  pair \<open>j = i\<close> has \<open>nan\<close> in all three components of the acceleration matrix and is
  excluded from the sum of particle \<open>i\<close> exactly; and the same discard also drops, without
  an error, every pair of distinct particles whose rows of \<open>pos\<close> coincide: such a pair
  has \<open>nan\<close> in all three components too, and the result for particle \<open>i\<close> is the negated
  \<open>nan\<close>-discarding sum over the pairs that do not coincide.
\<close>

theorem nansum_discards:
  assumes "length mass = length pos" "\<forall>p\<in>set pos. length p = 3" "i < length pos"
  shows "acc_matrix G mass pos ! i ! i = [NaN, NaN, NaN]
       \<and> (\<forall>j<length pos. pos ! j = pos ! i \<longrightarrow> acc_matrix G mass pos ! i ! j = [NaN, NaN, NaN])
       \<and> (\<forall>k<3. neg_nansum_axis1 (acc_matrix G mass pos) ! i ! k =
             fl_neg (nansum (map (\<lambda>j. acc_matrix G mass pos ! i ! j ! k)
                                 (filter (\<lambda>j. pos ! j \<noteq> pos ! i) [0..<length pos]))))"
proof (intro conjI allI impI)
  have len: "length (pos ! j) = 3" if "j < length pos" for j using assms(2) that by simp
  from len[OF assms(3)] obtain a b c where abc: "pos ! i = [a, b, c]"
    by (auto simp: numeral_3_eq_3 length_Suc_conv)
  show c1: "acc_matrix G mass pos ! i ! j = [NaN, NaN, NaN]"
    if "j < length pos" "pos ! j = pos ! i" for j
    using acc_coincident[OF assms(1,3) that] by (simp add: abc)
  from c1[OF assms(3)] show "acc_matrix G mass pos ! i ! i = [NaN, NaN, NaN]" by simp
  fix k :: nat assume k: "k < 3"
  let ?g = "\<lambda>j. acc_matrix G mass pos ! i ! j ! k"
  have row: "map (\<lambda>v. v ! k) (acc_matrix G mass pos ! i) = map ?g [0..<length pos]"
    using assms(1,3) by (intro nth_equalityI) (simp_all add: length_acc_matrix_row)
  have "nansum (map ?g [0..<length pos])
        = nansum (map ?g (filter (\<lambda>j. pos ! j \<noteq> pos ! i) [0..<length pos]))"
  proof (rule nansum_filter)
    fix j assume "j \<in> set [0..<length pos]" "\<not> pos ! j \<noteq> pos ! i"
    then show "?g j = NaN" using c1[of j] k by (auto simp: less_Suc_eq numeral_3_eq_3)
  qed
  then show "neg_nansum_axis1 (acc_matrix G mass pos) ! i ! k = fl_neg (nansum (map ?g
      (filter (\<lambda>j. pos ! j \<noteq> pos ! i) [0..<length pos])))"
    using assms(3) k by (simp add: neg_nansum_axis1_nth length_acc_matrix row)
qed

text \<open>
  The same three particles: the self pair and the pair \<open>(0, 1)\<close> coincide and are \<open>nan\<close>,
  and the first component of the result for particle \<open>0\<close> is the contribution of particle
  \<open>2\<close> alone.
\<close>

theorem nansum_discards_witness:
  "length [1, 5, 1 :: real] = length [[0, 0, 0], [0, 0, 0], [1, 0, 0 :: real]]
   \<and> map length [[0, 0, 0], [0, 0, 0], [1, 0, 0 :: real]] = [3, 3, 3]
   \<and> acc_matrix 1 [1, 5, 1] [[0, 0, 0], [0, 0, 0], [1, 0, 0]] ! 0 ! 0 = [NaN, NaN, NaN]
   \<and> acc_matrix 1 [1, 5, 1] [[0, 0, 0], [0, 0, 0], [1, 0, 0]] ! 0 ! 1 = [NaN, NaN, NaN]
   \<and> neg_nansum_axis1 (acc_matrix 1 [1, 5, 1] [[0, 0, 0], [0, 0, 0], [1, 0, 0]]) ! 0 ! 0
       = Fin 1"
proof -
  let ?pos = "[[0, 0, 0], [0, 0, 0], [1, 0, 0 :: real]]"
  have h: "length [1, 5, 1 :: real] = length ?pos" "\<forall>p\<in>set ?pos. length p = 3" "0 < length ?pos"
    by simp_all
  from nansum_discards[OF h, of 1] have
    s: "acc_matrix 1 [1, 5, 1] ?pos ! 0 ! 0 = [NaN, NaN, NaN]"
    and a: "\<forall>j<length ?pos. ?pos ! j = ?pos ! 0 \<longrightarrow> acc_matrix 1 [1, 5, 1] ?pos ! 0 ! j = [NaN, NaN, NaN]"
    and c: "\<forall>k<3. neg_nansum_axis1 (acc_matrix 1 [1, 5, 1] ?pos) ! 0 ! k =
             fl_neg (nansum (map (\<lambda>j. acc_matrix 1 [1, 5, 1] ?pos ! 0 ! j ! k)
                                 (filter (\<lambda>j. ?pos ! j \<noteq> ?pos ! 0) [0..<length ?pos])))"
    by blast+
  from a have a1: "acc_matrix 1 [1, 5, 1] ?pos ! 0 ! 1 = [NaN, NaN, NaN]" by simp
  from c have "neg_nansum_axis1 (acc_matrix 1 [1, 5, 1] ?pos) ! 0 ! 0 =
             fl_neg (nansum (map (\<lambda>j. acc_matrix 1 [1, 5, 1] ?pos ! 0 ! j ! 0)
                                 (filter (\<lambda>j. ?pos ! j \<noteq> ?pos ! 0) [0..<length ?pos])))"
    by simp
  then have c1: "neg_nansum_axis1 (acc_matrix 1 [1, 5, 1] ?pos) ! 0 ! 0 = Fin 1"
    by (simp add: upt_conv_Cons acc_matrix_def dxij_def linalg_norm_def nansum_def
        nan_to_zero_def)
  from h(1) s a1 c1 show ?thesis by simp
qed

text \<open>
  Claim C8: the pairwise separation tensor has \<open>dx[i, i] = 0\<close>, \<open>dx[i, j] = -dx[j, i]\<close> and
  \<open>dx[i, j] = position[i] - position[j]\<close>.

  The tensor of the kernel part is computed from the positions and has all three
  properties (lemma \<open>dxij_props\<close>).  The tensor of the force part is computed from
  \<open>S[:, 3:]\<close>: it is zero on the diagonal and antisymmetric, but it holds differences of
  velocities.  Particle \<open>0\<close> at the origin with velocity \<open>(1, 0, 0)\<close> and particle \<open>1\<close> at
  \<open>(1, 0, 0)\<close> at rest: \<open>dxij[0, 1]\<close> is \<open>(1, 0, 0)\<close>, and
  \<open>position[0] - position[1]\<close> is \<open>(-1, 0, 0)\<close>.
\<close>

theorem dxij_of_state_vector:
  "dxij (pos_of_S (hstack [[0, 0, 0], [1, 0, 0]] [[1, 0, 0], [0, 0, 0]])) ! 0 ! 1 = [1, 0, 0]
   \<and> map2 (-) ([[0, 0, 0], [1, 0, 0]] ! 0) ([[0, 0, 0], [1, 0, 0 :: real]] ! 1) = [- 1, 0, 0]"
  by (simp add: dxij_def pos_of_S_def hstack_def)


section \<open>Claims about the kernel and its gradient\<close>

text \<open>
  Claim C4: for every pair \<open>(i, j)\<close> and every \<open>h > 0\<close>, with \<open>R = ||dx[i, j]|| / h\<close>, the
  kernel entry is \<open>alpha * (2/3 - R^2 + R^3/2)\<close> when \<open>0 \<le> R < 1\<close>,
  \<open>alpha * (2 - R)^3 / 6\<close> when \<open>1 \<le> R < 2\<close> and \<open>0\<close> when \<open>R \<ge> 2\<close>; the branches are
  mutually exclusive and exhaustive over \<open>R \<ge> 0\<close>; \<open>R = 1\<close> falls in the second branch and
  \<open>R = 2\<close> in the zero branch.
\<close>

theorem W_piecewise:
  assumes "0 < h" "i < length pos" "j < length pos"
    and "x = linalg_norm (map2 (-) (pos ! i) (pos ! j)) / h"
  shows "R h pos ! i ! j = Fin x \<and> 0 \<le> x
     \<and> (I1 h pos ! i ! j \<longleftrightarrow> 0 \<le> x \<and> x < 1)
     \<and> (I2 h pos ! i ! j \<longleftrightarrow> 1 \<le> x \<and> x < 2)
     \<and> \<not> (I1 h pos ! i ! j \<and> I2 h pos ! i ! j)
     \<and> (\<not> I1 h pos ! i ! j \<and> \<not> I2 h pos ! i ! j \<longleftrightarrow> 2 \<le> x)
     \<and> (0 \<le> x \<and> x < 1 \<longrightarrow> W alpha h pos ! i ! j = Fin (alpha * (2 / 3 - x\<^sup>2 + x ^ 3 / 2)))
     \<and> (1 \<le> x \<and> x < 2 \<longrightarrow> W alpha h pos ! i ! j = Fin (alpha * ((2 - x) ^ 3 / 6)))
     \<and> (2 \<le> x \<longrightarrow> W alpha h pos ! i ! j = Fin 0)
     \<and> (x = 1 \<longrightarrow> I2 h pos ! i ! j \<and> \<not> I1 h pos ! i ! j)
     \<and> (x = 2 \<longrightarrow> \<not> I1 h pos ! i ! j \<and> \<not> I2 h pos ! i ! j)"
proof -
  have r: "R h pos ! i ! j = Fin x" using assms by (simp add: R_Fin)
  have x0: "0 \<le> x" using assms linalg_norm_nonneg[of "map2 (-) (pos ! i) (pos ! j)"] by simp
  have m1: "I1 h pos ! i ! j \<longleftrightarrow> 0 \<le> x \<and> x < 1" using assms r by (simp add: I1_nth in_I1_Fin)
  have m2: "I2 h pos ! i ! j \<longleftrightarrow> 1 \<le> x \<and> x < 2" using assms r by (simp add: I2_nth in_I2_Fin)
  have ex: "\<not> (I1 h pos ! i ! j \<and> I2 h pos ! i ! j)" using m1 m2 by simp
  have el: "\<not> I1 h pos ! i ! j \<and> \<not> I2 h pos ! i ! j \<longleftrightarrow> 2 \<le> x" using m1 m2 x0 by auto
  have w1: "0 \<le> x \<and> x < 1 \<longrightarrow> W alpha h pos ! i ! j = Fin (alpha * (2 / 3 - x\<^sup>2 + x ^ 3 / 2))"
    using assms(2,3) r by (simp add: W_nth in_I1_Fin in_I2_Fin W_I1_Fin)
  have w2: "1 \<le> x \<and> x < 2 \<longrightarrow> W alpha h pos ! i ! j = Fin (alpha * ((2 - x) ^ 3 / 6))"
    using assms(2,3) r by (simp add: W_nth in_I1_Fin in_I2_Fin W_I2_Fin)
  have w3: "2 \<le> x \<longrightarrow> W alpha h pos ! i ! j = Fin 0"
    using assms(2,3) r by (simp add: W_nth in_I1_Fin in_I2_Fin)
  have b1: "x = 1 \<longrightarrow> I2 h pos ! i ! j \<and> \<not> I1 h pos ! i ! j" using m1 m2 by simp
  have b2: "x = 2 \<longrightarrow> \<not> I1 h pos ! i ! j \<and> \<not> I2 h pos ! i ! j" using m1 m2 by simp
  from r x0 m1 m2 ex el w1 w2 w3 b1 b2 show ?thesis by blast
qed

text \<open>
  Three particles on a line at distances \<open>0\<close>, \<open>1\<close> and \<open>2\<close> from the first, with \<open>h = 1\<close> and
  \<open>alpha = 1\<close>: one pair in each branch, two of them on a boundary.
\<close>

theorem W_piecewise_witness:
  "(0::real) < 1 \<and> (1::nat) < length [[0, 0, 0], [1, 0, 0], [2, 0, 0 :: real]]
   \<and> W 1 1 [[0, 0, 0], [1, 0, 0], [2, 0, 0]] ! 0 ! 0 = Fin (2 / 3)
   \<and> W 1 1 [[0, 0, 0], [1, 0, 0], [2, 0, 0]] ! 0 ! 1 = Fin (1 / 6)
   \<and> I2 1 [[0, 0, 0], [1, 0, 0], [2, 0, 0]] ! 0 ! 1
   \<and> W 1 1 [[0, 0, 0], [1, 0, 0], [2, 0, 0]] ! 0 ! 2 = Fin 0
   \<and> \<not> I2 1 [[0, 0, 0], [1, 0, 0], [2, 0, 0]] ! 0 ! 2"
  using W_piecewise[of 1 0 "[[0, 0, 0], [1, 0, 0], [2, 0, 0]]" 0 0 1]
    W_piecewise[of 1 0 "[[0, 0, 0], [1, 0, 0], [2, 0, 0]]" 1 1 1]
    W_piecewise[of 1 0 "[[0, 0, 0], [1, 0, 0], [2, 0, 0]]" 2 2 1]
  by (simp add: linalg_norm_def)

text \<open>
  Claim C10: for every particle \<open>i\<close> and every \<open>h > 0\<close> the diagonal entry of the kernel
  matrix is \<open>W[i, i] = alpha * 2/3\<close>, which is not zero (for a normalisation \<open>alpha\<close> that
  is not zero); a sum of row \<open>i\<close> of \<open>W\<close> over all \<open>j\<close> therefore contains this
  self-contribution next to the sum over the other entries.
\<close>

theorem W_diagonal:
  assumes "0 < h" "i < length pos"
  shows "W alpha h pos ! i ! i = Fin (alpha * 2 / 3)
     \<and> (alpha \<noteq> 0 \<longrightarrow> W alpha h pos ! i ! i \<noteq> Fin 0)
     \<and> fl_sum (W alpha h pos ! i) =
         fl_add (Fin (alpha * 2 / 3))
                (fl_sum (take i (W alpha h pos ! i) @ drop (Suc i) (W alpha h pos ! i)))"
proof -
  have d: "W alpha h pos ! i ! i = Fin (alpha * 2 / 3)"
    using assms by (simp add: W_nth R_nth rij_diag in_I1_Fin in_I2_Fin W_I1_Fin)
  have "i < length (W alpha h pos ! i)" using assms(2) by (simp add: length_W_row)
  from fl_sum_pick[OF this] d show ?thesis by simp
qed

theorem W_diagonal_witness:
  "(0::real) < 1 \<and> (0::nat) < length [[0, 0, 0 :: real]] \<and> (3::real) \<noteq> 0
   \<and> W 3 1 [[0, 0, 0]] ! 0 ! 0 = Fin 2 \<and> W 3 1 [[0, 0, 0]] ! 0 ! 0 \<noteq> Fin 0
   \<and> fl_sum (W 3 1 [[0, 0, 0]] ! 0) =
       fl_add (Fin 2) (fl_sum (take 0 (W 3 1 [[0, 0, 0]] ! 0) @ drop (Suc 0) (W 3 1 [[0, 0, 0]] ! 0)))"
  using W_diagonal[of 1 0 "[[0, 0, 0]]" 3] by simp

text \<open>
  Claim C7: the kernel is continuous at its branch boundaries.  The first and the second
  formula agree at \<open>R = 1\<close>, where both are \<open>alpha / 6\<close>, and the second formula is \<open>0\<close> at
  \<open>R = 2\<close>, the value of the third branch.  In exact arithmetic the values are equal, so
  within any tolerance.
\<close>

theorem kernel_continuity:
  "W_I1 alpha (Fin 1) = W_I2 alpha (Fin 1) \<and> W_I1 alpha (Fin 1) = Fin (alpha / 6)
   \<and> W_I2 alpha (Fin 1) = Fin (alpha / 6) \<and> W_I2 alpha (Fin 2) = Fin 0"
  by (simp add: W_I1_Fin W_I2_Fin)

text \<open>
  Claim C5, as stated: for every particle \<open>i\<close> the kernel-gradient entry \<open>dW[i, i]\<close> is
  exactly the zero vector, and its computation never divides by \<open>r = 0\<close>.

  The diagonal is not special-cased: for \<open>h\<close> other than zero it is selected by the first
  mask and computed as \<open>alpha * (-2 + 3/2 * 0) * 0 / h**2\<close>.  With \<open>h = 2^-600\<close> the square
  \<open>h**2\<close> is \<open>0.0\<close>, and the entry is \<open>0/0\<close>: for a single particle and \<open>alpha = 1\<close> the
  gradient on the diagonal is \<open>nan\<close> in every component.
\<close>

theorem dW_diagonal_underflow:
  "dW 1 (1 / 2 ^ 600) [[0, 0, 0]] = Inr [[[NaN, NaN, NaN]]]"
proof -
  have sq: "(1 / 2 ^ 600 :: real)\<^sup>2 = 1 / 2 ^ 1200"
    by (simp add: power_divide flip: power_mult)
  have "(2::real) ^ 1075 \<le> 2 ^ 1200" by (rule power_increasing) simp_all
  then have le: "(1 / 2 ^ 1200 :: real) \<le> dbl_underflow"
    by (simp add: dbl_underflow_def frac_le)
  have "(1 / 2 ^ 1200 :: real) \<le> 1" by simp
  then have "\<not> dbl_overflow \<le> (1 / 2 ^ 1200 :: real)" using dbl_overflow_gt by linarith
  with le have h2: "float_pow2 (1 / 2 ^ 600) = Inr (Fin 0)"
    by (simp only: float_pow2_cases sq if_True if_False)
  have "dW_assign 1 (1 / 2 ^ 600) (Fin 0) [[0, 0, 0]] = [[[NaN, NaN, NaN]]]"
    by (simp add: dW_assign_def I1_def I2_def R_def rij_def dxij_def linalg_norm_def
        bool_index_def mask_row_def in_I1_def in_I2_def dW_I1_def dW_I1_zero_entry)
  with h2 show ?thesis by (simp add: dW_def)
qed

text \<open>
  Claim C5, amended: for every particle \<open>i\<close> and every \<open>h\<close>, the diagonal is never selected
  by the second mask, so \<open>dW[i, i]\<close> is never evaluated through the formula that divides
  by \<open>r\<close>.  When \<open>h**2\<close> overflows, the assignment raises OverflowError.  Otherwise the
  gradient is computed, and \<open>dW[i, i]\<close> is the initial zero vector when \<open>h = 0\<close> and the
  value of the first branch's formula, which divides by \<open>h**2\<close>, when \<open>h\<close> is not zero: the
  zero vector when \<open>h**2\<close> does not underflow to zero and \<open>2 * alpha\<close> does not overflow,
  and \<open>nan\<close> in every component when \<open>h**2\<close> underflows to zero or \<open>2 * alpha\<close> overflows.
\<close>

theorem dW_diagonal:
  assumes "i < length pos"
  shows "\<not> I2 h pos ! i ! i
     \<and> (dbl_overflow \<le> h\<^sup>2 \<longrightarrow> dW alpha h pos = Inl OverflowError)
     \<and> (h\<^sup>2 < dbl_overflow \<longrightarrow>
          (\<exists>h2 D. float_pow2 h = Inr h2 \<and> dW alpha h pos = Inr D
             \<and> (h \<noteq> 0 \<longrightarrow> D ! i ! i = dW_I1 alpha h2 (R h pos ! i ! i, dxij pos ! i ! i))
             \<and> (h = 0 \<or> (dbl_underflow < h\<^sup>2 \<and> 2 * \<bar>alpha\<bar> < dbl_overflow)
                  \<longrightarrow> D ! i ! i = replicate (length (pos ! i)) (Fin 0))
             \<and> (h \<noteq> 0 \<and> (h\<^sup>2 \<le> dbl_underflow \<or> dbl_overflow \<le> 2 * \<bar>alpha\<bar>)
                  \<longrightarrow> D ! i ! i = replicate (length (pos ! i)) NaN)))"
proof (intro conjI impI)
  show "\<not> I2 h pos ! i ! i" using assms by (rule I2_diag)
  show "dW alpha h pos = Inl OverflowError" if "dbl_overflow \<le> h\<^sup>2"
    using that by (simp add: dW_def float_pow2_def)
  assume no: "h\<^sup>2 < dbl_overflow"
  define v where "v = (if h\<^sup>2 \<le> dbl_underflow then 0 else h\<^sup>2)"
  have h2: "float_pow2 h = Inr (Fin v)"
    using no by (simp add: float_pow2_cases v_def)
  have D: "dW alpha h pos = Inr (dW_assign alpha h (Fin v) pos)"
    by (simp add: dW_def h2)
  have v0: "v \<noteq> 0 \<longleftrightarrow> dbl_underflow < h\<^sup>2"
    using dbl_underflow_pos by (auto simp: v_def)
  have diag: "dW_assign alpha h (Fin v) pos ! i ! i =
     (if h = 0 then map (\<lambda>_. Fin 0) (pos ! i)
      else dW_I1 alpha (Fin v) (R h pos ! i ! i, dxij pos ! i ! i))"
    using assms by (rule dW_assign_diag)
  have val: "dW_I1 alpha (Fin v) (R h pos ! i ! i, dxij pos ! i ! i) =
      map (\<lambda>_. if 2 * \<bar>alpha\<bar> < dbl_overflow \<and> v \<noteq> 0 then Fin 0 else NaN) (pos ! i)"
    if "h \<noteq> 0"
  proof -
    have "R h pos ! i ! i = Fin 0" using assms that by (simp add: R_nth rij_diag)
    then show ?thesis using assms by (simp only: dxij_diag dW_I1_diag)
  qed
  have p1: "h \<noteq> 0 \<longrightarrow>
      dW_assign alpha h (Fin v) pos ! i ! i = dW_I1 alpha (Fin v) (R h pos ! i ! i, dxij pos ! i ! i)"
    using diag by simp
  have p2: "h = 0 \<or> (dbl_underflow < h\<^sup>2 \<and> 2 * \<bar>alpha\<bar> < dbl_overflow) \<longrightarrow>
      dW_assign alpha h (Fin v) pos ! i ! i = replicate (length (pos ! i)) (Fin 0)"
    using diag val v0 by (auto simp: map_replicate_const)
  have p3: "h \<noteq> 0 \<and> (h\<^sup>2 \<le> dbl_underflow \<or> dbl_overflow \<le> 2 * \<bar>alpha\<bar>) \<longrightarrow>
      dW_assign alpha h (Fin v) pos ! i ! i = replicate (length (pos ! i)) NaN"
    using diag val v0 by (auto simp: map_replicate_const)
  from h2 D p1 p2 p3
  show "\<exists>h2 D. float_pow2 h = Inr h2 \<and> dW alpha h pos = Inr D
             \<and> (h \<noteq> 0 \<longrightarrow> D ! i ! i = dW_I1 alpha h2 (R h pos ! i ! i, dxij pos ! i ! i))
             \<and> (h = 0 \<or> (dbl_underflow < h\<^sup>2 \<and> 2 * \<bar>alpha\<bar> < dbl_overflow)
                  \<longrightarrow> D ! i ! i = replicate (length (pos ! i)) (Fin 0))
             \<and> (h \<noteq> 0 \<and> (h\<^sup>2 \<le> dbl_underflow \<or> dbl_overflow \<le> 2 * \<bar>alpha\<bar>)
                  \<longrightarrow> D ! i ! i = replicate (length (pos ! i)) NaN)"
    by blast
qed

text \<open>
  Two particles at distance \<open>3/2\<close> with \<open>alpha = 1\<close>: with \<open>h = 1\<close> the gradient is computed
  and is zero on the diagonal; with \<open>h = 2^600\<close> the square overflows.
\<close>

theorem dW_diagonal_witness:
  "(0::nat) < length [[0, 0, 0], [3 / 2, 0, 0 :: real]]
   \<and> \<not> I2 1 [[0, 0, 0], [3 / 2, 0, 0]] ! 0 ! 0
   \<and> float_pow2 1 = Inr (Fin 1)
   \<and> (\<exists>D. dW 1 1 [[0, 0, 0], [3 / 2, 0, 0]] = Inr D \<and> D ! 0 ! 0 = [Fin 0, Fin 0, Fin 0])
   \<and> dW 1 (2 ^ 600) [[0, 0, 0], [3 / 2, 0, 0]] = Inl OverflowError"
proof -
  let ?pos = "[[0, 0, 0], [3 / 2, 0, 0 :: real]]"
  have i: "(0::nat) < length ?pos" by simp
  have r1: "(1::real)\<^sup>2 < dbl_overflow" "dbl_underflow < (1::real)\<^sup>2" "2 * \<bar>1::real\<bar> < dbl_overflow"
    using dbl_overflow_gt dbl_underflow_lt by simp_all
  have p: "float_pow2 1 = Inr (Fin 1)"
    using r1 by (simp add: float_pow2_cases)
  from dW_diagonal[OF i, of 1 1] r1
  have a: "\<not> I2 1 ?pos ! 0 ! 0"
    and b: "\<exists>D. dW 1 1 ?pos = Inr D \<and> D ! 0 ! 0 = [Fin 0, Fin 0, Fin 0]"
    by (auto simp: numeral_3_eq_3)
  have "((2::real) ^ 600)\<^sup>2 = 2 ^ 1200" by (simp flip: power_mult)
  moreover have "dbl_overflow \<le> (2::real) ^ 1200"
  proof -
    have "dbl_overflow \<le> 2 ^ 54 * (2::real) ^ 970"
      unfolding dbl_overflow_def by (intro mult_right_mono) simp_all
    also have "\<dots> = 2 ^ 1024" by (simp flip: power_add)
    also have "\<dots> \<le> (2::real) ^ 1200" by (rule power_increasing) simp_all
    finally show ?thesis .
  qed
  ultimately have "dbl_overflow \<le> ((2::real) ^ 600)\<^sup>2" by simp
  with dW_diagonal[OF i, of "2 ^ 600" 1]
  have c: "dW 1 (2 ^ 600) ?pos = Inl OverflowError" by blast
  from i a p b c show ?thesis by blast
qed


section \<open>Claims about the neighbour count\<close>

text \<open>
  Claim C2, as stated: the neighbour-count query returns, for particle \<open>i\<close>, the number of
  particles \<open>j \<noteq> i\<close> with \<open>0 \<le> R[i, j] < 2\<close>.

  The query of the notebook is \<open>I1.sum(axis=0)\<close>.  With \<open>h = 2/3\<close> and two further particles
  at distance \<open>1\<close> on either side of particle \<open>0\<close> (\<open>R = 3/2\<close>) it returns \<open>1\<close> for particle
  \<open>0\<close>, the particle itself, where the claim counts \<open>2\<close>; for a single particle it
  returns \<open>1\<close> where the claim counts \<open>0\<close>.
\<close>

theorem neighbour_count_counterexample:
  "I1_sum_axis0 (2 / 3) [[0, 0, 0], [1, 0, 0], [- 1, 0, 0]] ! 0 = 1
   \<and> neighbours_claimed (2 / 3) [[0, 0, 0], [1, 0, 0], [- 1, 0, 0]] 0 = 2
   \<and> I1_sum_axis0 1 [[0, 0, 0]] ! 0 = 1
   \<and> neighbours_claimed 1 [[0, 0, 0]] 0 = 0"
  by (simp add: part2_eval upt_conv_Cons)

text \<open>
  Claim C2, amended: for every particle \<open>i\<close> (and every \<open>h\<close> other than zero, so that \<open>R\<close>
  is defined), the query returns the number of particles \<open>j\<close> with \<open>0 \<le> R[i, j] < 1\<close>, the
  first branch of the kernel only, and the particle \<open>i\<close> itself, for which
  \<open>R[i, i] = 0\<close>, is one of them.
\<close>

theorem I1_sum_axis0_counts:
  assumes "h \<noteq> 0" "i < length pos"
  shows "I1_sum_axis0 h pos ! i =
           length (filter (\<lambda>j. 0 \<le> R_claimed h pos i j \<and> R_claimed h pos i j < 1)
                     [0..<length pos])
       \<and> R_claimed h pos i i = 0
       \<and> i \<in> set (filter (\<lambda>j. 0 \<le> R_claimed h pos i j \<and> R_claimed h pos i j < 1)
                     [0..<length pos])"
proof -
  have "filter (\<lambda>j. in_I1 (R h pos ! j ! i)) [0..<length pos]
      = filter (\<lambda>j. 0 \<le> R_claimed h pos i j \<and> R_claimed h pos i j < 1) [0..<length pos]"
    using assms
    by (intro filter_cong refl)
       (simp add: R_Fin in_I1_Fin R_claimed_def linalg_norm_swap[of "pos ! i"])
  moreover have "R_claimed h pos i i = 0"
    by (simp add: R_claimed_def map2_minus_self linalg_norm_zeros)
  ultimately show ?thesis using assms(2) by (simp add: I1_sum_axis0_nth)
qed

theorem I1_sum_axis0_counts_witness:
  "(2 / 3 :: real) \<noteq> 0 \<and> (0::nat) < length [[0, 0, 0], [1 / 2, 0, 0], [1, 0, 0 :: real]]
   \<and> I1_sum_axis0 (2 / 3) [[0, 0, 0], [1 / 2, 0, 0], [1, 0, 0]] ! 0 = 2
   \<and> R_claimed (2 / 3) [[0, 0, 0], [1 / 2, 0, 0], [1, 0, 0]] 0 0 = 0"
  using I1_sum_axis0_counts[of "2 / 3" 0 "[[0, 0, 0], [1 / 2, 0, 0], [1, 0, 0]]"]
  by (simp add: R_claimed_def linalg_norm_def upt_conv_Cons)

text \<open>
  Claim C9: for fixed positions and \<open>0 < h' \<le> h\<close>, the neighbour count of every particle
  computed with \<open>h'\<close> is at most its neighbour count computed with \<open>h\<close>.  This holds for the
  count that the notebook returns and for the count over the full support \<open>[0, 2)\<close>
  without the particle itself.
\<close>

theorem neighbour_count_mono:
  assumes "0 < h'" "h' \<le> h" "i < length pos"
  shows "I1_sum_axis0 h' pos ! i \<le> I1_sum_axis0 h pos ! i
       \<and> neighbours_claimed h' pos i \<le> neighbours_claimed h pos i"
proof
  show "I1_sum_axis0 h' pos ! i \<le> I1_sum_axis0 h pos ! i"
    using assms by (rule I1_sum_axis0_mono)
  have "R_claimed h pos i j < 2 \<and> 0 \<le> R_claimed h pos i j" if "R_claimed h' pos i j < 2" for j
  proof -
    let ?r = "linalg_norm (map2 (-) (pos ! i) (pos ! j))"
    have r0: "0 \<le> ?r" by (rule linalg_norm_nonneg)
    from that have "?r < 2 * h'" using assms(1) by (simp add: R_claimed_def pos_divide_less_eq)
    then have "?r < 2 * h" using assms(2) by simp
    then show ?thesis using assms(1,2) r0 by (simp add: R_claimed_def pos_divide_less_eq)
  qed
  then show "neighbours_claimed h' pos i \<le> neighbours_claimed h pos i"
    unfolding neighbours_claimed_def by (intro length_filter_mono) auto
qed

theorem neighbour_count_mono_witness:
  "(0::real) < 1 / 2 \<and> (1 / 2 :: real) \<le> 2 \<and> (0::nat) < length [[0, 0, 0], [1, 0, 0 :: real]]
   \<and> I1_sum_axis0 (1 / 2) [[0, 0, 0], [1, 0, 0]] ! 0 = 1
   \<and> I1_sum_axis0 2 [[0, 0, 0], [1, 0, 0]] ! 0 = 2
   \<and> I1_sum_axis0 (1 / 2) [[0, 0, 0], [1, 0, 0]] ! 0 \<le> I1_sum_axis0 2 [[0, 0, 0], [1, 0, 0]] ! 0"
proof -
  have a: "I1_sum_axis0 (1 / 2) [[0, 0, 0], [1, 0, 0]] ! 0 = 1"
    and b: "I1_sum_axis0 2 [[0, 0, 0], [1, 0, 0]] ! 0 = 2"
    by (simp_all add: part2_eval upt_conv_Cons)
  from neighbour_count_mono[of "1 / 2" 2 0 "[[0, 0, 0], [1, 0, 0]]"] a b show ?thesis by simp
qed


section \<open>The claim about the three dot products\<close>

text \<open>
  Claim C3: for arrays \<open>dx\<close> and \<open>dv\<close> of shape \<open>(N, N, 3)\<close> the three formulations produce
  the same \<open>N \<times> N\<close> result, entry by entry.

  They compute the same numbers for every \<open>N\<close> (lemma \<open>dxdvij_agree\<close>), and the same
  \<open>N \<times> N\<close> array, entry by entry, unless \<open>N = 1\<close> (lemma \<open>dxdvij_entries\<close>).  For a single
  particle, whose separation from itself is the zero vector, the first two return an
  array of shape \<open>(1, 1)\<close>, the third a zero-dimensional array, and reading its entry
  \<open>[0, 0]\<close> is an IndexError.
\<close>

theorem dxdvij_C_one_particle:
  "dxdvij_A \<lparr>nd_shape = [1, 1, 3], nd_data = [0, 0, 0]\<rparr> \<lparr>nd_shape = [1, 1, 3], nd_data = [4, 5, 6]\<rparr>
     = Inr \<lparr>nd_shape = [1, 1], nd_data = [0]\<rparr>
   \<and> dxdvij_B \<lparr>nd_shape = [1, 1, 3], nd_data = [0, 0, 0]\<rparr> \<lparr>nd_shape = [1, 1, 3], nd_data = [4, 5, 6]\<rparr>
     = Inr \<lparr>nd_shape = [1, 1], nd_data = [0]\<rparr>
   \<and> dxdvij_C \<lparr>nd_shape = [1, 1, 3], nd_data = [0, 0, 0]\<rparr> \<lparr>nd_shape = [1, 1, 3], nd_data = [4, 5, 6]\<rparr>
     = Inr \<lparr>nd_shape = [], nd_data = [0]\<rparr>
   \<and> item2 \<lparr>nd_shape = [1, 1], nd_data = [0]\<rparr> 0 0 = Inr \<lparr>nd_shape = [], nd_data = [0]\<rparr>
   \<and> item2 \<lparr>nd_shape = [], nd_data = [0]\<rparr> 0 0 = Inl IndexError"
  by (simp add: dxdvij_A_def dxdvij_B_def dxdvij_C_def multiply_def sum_axis2_def
      einsum_ijk_ijk_ij_def newaxis_before_last_def newaxis_last_def matmul_def squeeze_def
      item2_def Let_def upt_conv_Cons)

end
